theory Spec2Isabelle
  imports Main
begin

section \<open>The offline hub of seanime: data model\<close>

text \<open>
  The development embeds the hub of package \<^verbatim>\<open>offline\<close>, the file that declares the type
  \<^verbatim>\<open>Hub\<close>: the cache operations \<^verbatim>\<open>RetrieveCurrentSnapshot\<close>, \<^verbatim>\<open>GetCurrentSnapshot\<close>, the three
  update operations and the synchronization pass \<^verbatim>\<open>SyncListData\<close>.

  A Go \<^verbatim>\<open>error\<close> is identified with its message; \<^verbatim>\<open>nil\<close> is \<open>None\<close>. A Go call that
  returns \<^verbatim>\<open>(value, err)\<close> is a pair, so that the variable \<^verbatim>\<open>err\<close> of the source stays a
  variable of the model. A pointer that may be \<^verbatim>\<open>nil\<close> is an \<open>option\<close>, and reading through
  a \<^verbatim>\<open>nil\<close> pointer is the outcome \<open>Panic\<close>.
\<close>

type_synonym error = string

datatype outcome = Success | Failure error | Panic

text \<open>\<^verbatim>\<open>return err\<close>: a \<^verbatim>\<open>nil\<close> error is success.\<close>

fun return_err :: "error option \<Rightarrow> outcome" where
  "return_err None = Success"
| "return_err (Some e) = Failure e"

text \<open>
  Go's \<^verbatim>\<open>int\<close> is a signed 64-bit integer whose arithmetic wraps around.
\<close>

definition go_int :: "int \<Rightarrow> int" where
  "go_int x = (x + 2 ^ 63) mod 2 ^ 64 - 2 ^ 63"

text \<open>\<^verbatim>\<open>time.Time\<close> values of the rows, compared with \<^verbatim>\<open>==\<close> only.\<close>

type_synonym timestamp = int

text \<open>\<^verbatim>\<open>anilist.MediaListStatus\<close> is a string type.\<close>

type_synonym MediaListStatus = string

record ListData =
  Score :: int
  Status :: MediaListStatus
  Progress :: int
  StartedAt :: string
  CompletedAt :: string

text \<open>
  The typed payloads. The source reads and writes only their field \<^verbatim>\<open>ListData\<close>, a pointer;
  the remaining fields (media metadata, episodes, chapters) are kept as one opaque field.
\<close>

record AnimeEntry =
  AnimeListData :: "ListData option"
  AnimeRest :: string

record MangaEntry =
  MangaListData :: "ListData option"
  MangaRest :: string

text \<open>
  A row of the snapshot-entry table. \<^verbatim>\<open>Value\<close> is the serialized payload; its type is left
  open. \<open>RowId\<close> and \<open>SnapshotItemId\<close> are the row's key and its owner.
\<close>

record 'v SnapshotMediaEntry =
  RowId :: nat
  MediaId :: int
  Type :: string
  SnapshotItemId :: nat
  Value :: 'v
  CreatedAt :: timestamp
  UpdatedAt :: timestamp

text \<open>A row of the snapshot table, as far as the source reads it.\<close>

record SnapshotItem =
  ID :: nat
  Used :: bool
  Synced :: bool

text \<open>The in-memory snapshot held by the hub; the source reads only \<^verbatim>\<open>DbId\<close>.\<close>

record 'v Snapshot =
  DbId :: nat
  Entries :: "'v SnapshotMediaEntry list"

record FuzzyDateInput =
  Year :: "int option"
  Month :: "int option"
  Day :: "int option"

text \<open>The arguments of one call of \<^verbatim>\<open>UpdateMediaListEntry\<close> on the remote client.\<close>

record push =
  argMediaId :: int
  argStatus :: MediaListStatus
  argScore :: int
  argProgress :: int
  argStartDate :: "FuzzyDateInput option"
  argEndDate :: "FuzzyDateInput option"

datatype WSEventType = RefreshedAnilistCollection | RefreshedAnilistMangaCollection

text \<open>
  What the hub does to its collaborators and to its mutex, in order:
  \<^verbatim>\<open>h.mu.Lock()\<close>, \<^verbatim>\<open>h.mu.Unlock()\<close>, a call of the remote client, the callback
  \<^verbatim>\<open>h.RefreshAnilistCollections()\<close> and \<^verbatim>\<open>h.wsEventManager.SendEvent\<close>.
\<close>

datatype event =
    MuLock
  | MuUnlock
  | RemoteUpdate push
  | RefreshAnilistCollections
  | SendEvent WSEventType

text \<open>
  The hub: the fields the operations read or write, the store behind \<^verbatim>\<open>offlineDb\<close> and the
  events so far.
\<close>

record ('db, 'v) Hub =
  isOffline :: bool
  currentSnapshot :: "'v Snapshot option"
  offlineDb :: 'db
  trace :: "event list"

section \<open>The collaborators\<close>

text \<open>
  The store, the entry codec, the snapshot loader \<^verbatim>\<open>h.GetLatestSnapshot(true)\<close>, the remote
  client and \<^verbatim>\<open>time.Parse\<close> are not part of the embedded file. The operations take them
  as one record of functions, so that what is proved about control flow holds for every
  store, codec and client.

  \<^item> the readers of the store are functions of the store's state;
  \<^item> \<open>UpdateSnapshotMediaEntryT\<close> and \<open>DeleteSnapshot\<close> return the error and the new state;
  \<^item> \<open>ParseRFC3339 s\<close> is \<^verbatim>\<open>time.Parse(time.RFC3339, s)\<close>: the year, month and day of the
    parsed time, or \<open>None\<close> when parsing fails;
  \<^item> the answer of the remote client may depend on everything that happened before.
\<close>

record ('db, 'v) Env =
  GetLatestSnapshot :: "'db \<Rightarrow> SnapshotItem option \<times> error option"
  GetSnapshotMediaEntries :: "'db \<Rightarrow> nat \<Rightarrow> 'v SnapshotMediaEntry list \<times> error option"
  GetSnapshotMediaEntry :: "'db \<Rightarrow> int \<Rightarrow> nat \<Rightarrow> 'v SnapshotMediaEntry option \<times> error option"
  UpdateSnapshotMediaEntryT :: "'db \<Rightarrow> 'v SnapshotMediaEntry \<Rightarrow> error option \<times> 'db"
  DeleteSnapshot :: "'db \<Rightarrow> nat \<Rightarrow> error option \<times> 'db"
  HubGetLatestSnapshot :: "'db \<Rightarrow> 'v Snapshot option \<times> error option"
  GetAnimeEntry :: "'v SnapshotMediaEntry \<Rightarrow> AnimeEntry option"
  GetMangaEntry :: "'v SnapshotMediaEntry \<Rightarrow> MangaEntry option"
  MarshalAnime :: "AnimeEntry \<Rightarrow> 'v"
  MarshalManga :: "MangaEntry \<Rightarrow> 'v"
  ParseRFC3339 :: "string \<Rightarrow> (int \<times> int \<times> int) option"
  UpdateMediaListEntry :: "event list \<Rightarrow> push \<Rightarrow> error option"

section \<open>The cache operations\<close>

definition emit :: "event \<Rightarrow> ('db, 'v) Hub \<Rightarrow> ('db, 'v) Hub" where
  "emit e h = h\<lparr>trace := trace h @ [e]\<rparr>"

text \<open>
  \<^verbatim>\<open>h.mu.Lock(); defer h.mu.Unlock()\<close>: the deferred unlock runs on every way out of the
  body, a panic included.
\<close>

definition locked ::
  "(('db, 'v) Hub \<Rightarrow> 'a \<times> ('db, 'v) Hub) \<Rightarrow> ('db, 'v) Hub \<Rightarrow> 'a \<times> ('db, 'v) Hub" where
  "locked body h = (let (r, h') = body (emit MuLock h) in (r, emit MuUnlock h'))"

definition RetrieveCurrentSnapshot ::
  "('db, 'v) Env \<Rightarrow> ('db, 'v) Hub \<Rightarrow> ('v Snapshot option \<times> bool) \<times> ('db, 'v) Hub" where
  "RetrieveCurrentSnapshot env = locked (\<lambda>h.
     if currentSnapshot h = None then
       (let (ret, err) = HubGetLatestSnapshot env (offlineDb h) in
        if err \<noteq> None then ((None, False), h)
        else ((ret, True), h\<lparr>currentSnapshot := ret\<rparr>))
     else ((currentSnapshot h, True), h))"

definition GetCurrentSnapshot ::
  "('db, 'v) Hub \<Rightarrow> ('v Snapshot option \<times> bool) \<times> ('db, 'v) Hub" where
  "GetCurrentSnapshot = locked (\<lambda>h.
     if currentSnapshot h = None then ((None, False), h)
     else ((currentSnapshot h, True), h))"

text \<open>
  The first block of the three update operations: load the snapshot when the cache is empty.
  \<open>Inl\<close> is the early return.
\<close>

definition loadIfAbsent ::
  "('db, 'v) Env \<Rightarrow> ('db, 'v) Hub \<Rightarrow> outcome + ('db, 'v) Hub" where
  "loadIfAbsent env h =
     (if currentSnapshot h = None then
        (let (ret, err) = HubGetLatestSnapshot env (offlineDb h) in
         if err \<noteq> None then Inl (Failure ''snapshot not found'')
         else Inr (h\<lparr>currentSnapshot := ret\<rparr>))
      else Inr h)"

text \<open>
  The last block of the three update operations: reload the cache from the store. The named
  result \<^verbatim>\<open>err\<close> receives the loader's error and is what the final \<^verbatim>\<open>return\<close> returns.
\<close>

definition refreshCurrentSnapshot ::
  "('db, 'v) Env \<Rightarrow> ('db, 'v) Hub \<Rightarrow> outcome \<times> ('db, 'v) Hub" where
  "refreshCurrentSnapshot env h =
     (let (ret, err) = HubGetLatestSnapshot env (offlineDb h) in
      if err \<noteq> None then (return_err err, h)
      else (return_err err, h\<lparr>currentSnapshot := ret\<rparr>))"

text \<open>
  \<^verbatim>\<open>h.currentSnapshot.DbId\<close> panics when the loader returned \<^verbatim>\<open>nil\<close> without an error, and so
  does decoding a \<^verbatim>\<open>nil\<close> row; \<^verbatim>\<open>animeEntry.ListData.Progress = progress\<close> panics when the
  entry has no list data.
\<close>

definition UpdateAnimeListStatus ::
  "('db, 'v) Env \<Rightarrow> int \<Rightarrow> int \<Rightarrow> MediaListStatus \<Rightarrow> ('db, 'v) Hub \<Rightarrow> outcome \<times> ('db, 'v) Hub" where
  "UpdateAnimeListStatus env mediaId progress status = locked (\<lambda>h.
     case loadIfAbsent env h of
       Inl r \<Rightarrow> (r, h)
     | Inr h \<Rightarrow>
        (case currentSnapshot h of
           None \<Rightarrow> (Panic, h)
         | Some snap \<Rightarrow>
            (let (snapshotEntry, err) = GetSnapshotMediaEntry env (offlineDb h) mediaId (DbId snap) in
             if err \<noteq> None then (return_err err, h)
             else case snapshotEntry of
               None \<Rightarrow> (Panic, h)
             | Some snapshotEntry \<Rightarrow>
                (case GetAnimeEntry env snapshotEntry of
                   None \<Rightarrow> (Failure ''anime entry not found'', h)
                 | Some animeEntry \<Rightarrow>
                    (case AnimeListData animeEntry of
                       None \<Rightarrow> (Panic, h)
                     | Some listData \<Rightarrow>
                        (let animeEntry = animeEntry\<lparr>AnimeListData :=
                               Some (listData\<lparr>Progress := progress, Status := status\<rparr>)\<rparr>;
                             snapshotEntry = snapshotEntry\<lparr>Value := MarshalAnime env animeEntry\<rparr>;
                             (err, db') = UpdateSnapshotMediaEntryT env (offlineDb h) snapshotEntry;
                             h = h\<lparr>offlineDb := db'\<rparr>
                         in if err \<noteq> None then (return_err err, h)
                            else refreshCurrentSnapshot env h))))))"

definition UpdateMangaListStatus ::
  "('db, 'v) Env \<Rightarrow> int \<Rightarrow> int \<Rightarrow> MediaListStatus \<Rightarrow> ('db, 'v) Hub \<Rightarrow> outcome \<times> ('db, 'v) Hub" where
  "UpdateMangaListStatus env mediaId progress status = locked (\<lambda>h.
     case loadIfAbsent env h of
       Inl r \<Rightarrow> (r, h)
     | Inr h \<Rightarrow>
        (case currentSnapshot h of
           None \<Rightarrow> (Panic, h)
         | Some snap \<Rightarrow>
            (let (snapshotEntry, err) = GetSnapshotMediaEntry env (offlineDb h) mediaId (DbId snap) in
             if err \<noteq> None then (return_err err, h)
             else case snapshotEntry of
               None \<Rightarrow> (Panic, h)
             | Some snapshotEntry \<Rightarrow>
                (case GetMangaEntry env snapshotEntry of
                   None \<Rightarrow> (Failure ''manga entry not found'', h)
                 | Some mangaEntry \<Rightarrow>
                    (case MangaListData mangaEntry of
                       None \<Rightarrow> (Panic, h)
                     | Some listData \<Rightarrow>
                        (let mangaEntry = mangaEntry\<lparr>MangaListData :=
                               Some (listData\<lparr>Progress := progress, Status := status\<rparr>)\<rparr>;
                             snapshotEntry = snapshotEntry\<lparr>Value := MarshalManga env mangaEntry\<rparr>;
                             (err, db') = UpdateSnapshotMediaEntryT env (offlineDb h) snapshotEntry;
                             h = h\<lparr>offlineDb := db'\<rparr>
                         in if err \<noteq> None then (return_err err, h)
                            else refreshCurrentSnapshot env h))))))"

text \<open>
  The five guarded assignments of \<^verbatim>\<open>UpdateEntryListData\<close>, the same in both branches of its
  switch. The result is \<open>None\<close> when an assignment goes through a \<^verbatim>\<open>nil\<close>
  \<^verbatim>\<open>entry.ListData\<close>, which panics; with no field given nothing is dereferenced.
\<close>

definition applyFields ::
  "MediaListStatus option \<Rightarrow> int option \<Rightarrow> int option \<Rightarrow> string option \<Rightarrow> string option \<Rightarrow>
   ListData option \<Rightarrow> ListData option option" where
  "applyFields status score progress startDate endDate listData =
     (case listData of
        None \<Rightarrow>
          (if progress = None \<and> status = None \<and> score = None \<and> startDate = None \<and> endDate = None
           then Some None else None)
      | Some ld \<Rightarrow>
          (let ld = (case progress of None \<Rightarrow> ld | Some v \<Rightarrow> ld\<lparr>Progress := v\<rparr>);
               ld = (case status of None \<Rightarrow> ld | Some v \<Rightarrow> ld\<lparr>Status := v\<rparr>);
               ld = (case score of None \<Rightarrow> ld | Some v \<Rightarrow> ld\<lparr>Score := v\<rparr>);
               ld = (case startDate of None \<Rightarrow> ld | Some v \<Rightarrow> ld\<lparr>StartedAt := v\<rparr>);
               ld = (case endDate of None \<Rightarrow> ld | Some v \<Rightarrow> ld\<lparr>CompletedAt := v\<rparr>)
           in Some (Some ld)))"

text \<open>
  \<^verbatim>\<open>mediaId\<close> is a pointer and the first statement after taking the lock, the debug log
  line, reads \<^verbatim>\<open>*mediaId\<close>. The switch on \<^verbatim>\<open>t\<close> has no default case.
\<close>

definition UpdateEntryListData ::
  "('db, 'v) Env \<Rightarrow> int option \<Rightarrow> MediaListStatus option \<Rightarrow> int option \<Rightarrow> int option \<Rightarrow>
   string option \<Rightarrow> string option \<Rightarrow> string \<Rightarrow> ('db, 'v) Hub \<Rightarrow> outcome \<times> ('db, 'v) Hub" where
  "UpdateEntryListData env mediaId status score progress startDate endDate t = locked (\<lambda>h.
     case mediaId of
       None \<Rightarrow> (Panic, h)
     | Some mediaId \<Rightarrow>
     (case loadIfAbsent env h of
       Inl r \<Rightarrow> (r, h)
     | Inr h \<Rightarrow>
        (case currentSnapshot h of
           None \<Rightarrow> (Panic, h)
         | Some snap \<Rightarrow>
            (let (snapshotEntry, err) = GetSnapshotMediaEntry env (offlineDb h) mediaId (DbId snap) in
             if err \<noteq> None then (return_err err, h)
             else if t = ''anime'' then
               (case snapshotEntry of
                  None \<Rightarrow> (Panic, h)
                | Some snapshotEntry \<Rightarrow>
                   (case GetAnimeEntry env snapshotEntry of
                      None \<Rightarrow> (Failure ''entry not found'', h)
                    | Some entry \<Rightarrow>
                       (case applyFields status score progress startDate endDate (AnimeListData entry) of
                          None \<Rightarrow> (Panic, h)
                        | Some listData \<Rightarrow>
                           (let entry = entry\<lparr>AnimeListData := listData\<rparr>;
                                snapshotEntry = snapshotEntry\<lparr>Value := MarshalAnime env entry\<rparr>;
                                (err, db') = UpdateSnapshotMediaEntryT env (offlineDb h) snapshotEntry;
                                h = h\<lparr>offlineDb := db'\<rparr>
                            in if err \<noteq> None then (return_err err, h)
                               else refreshCurrentSnapshot env h))))
             else if t = ''manga'' then
               (case snapshotEntry of
                  None \<Rightarrow> (Panic, h)
                | Some snapshotEntry \<Rightarrow>
                   (case GetMangaEntry env snapshotEntry of
                      None \<Rightarrow> (Failure ''entry not found'', h)
                    | Some entry \<Rightarrow>
                       (case applyFields status score progress startDate endDate (MangaListData entry) of
                          None \<Rightarrow> (Panic, h)
                        | Some listData \<Rightarrow>
                           (let entry = entry\<lparr>MangaListData := listData\<rparr>;
                                snapshotEntry = snapshotEntry\<lparr>Value := MarshalManga env entry\<rparr>;
                                (err, db') = UpdateSnapshotMediaEntryT env (offlineDb h) snapshotEntry;
                                h = h\<lparr>offlineDb := db'\<rparr>
                            in if err \<noteq> None then (return_err err, h)
                               else refreshCurrentSnapshot env h))))
             else refreshCurrentSnapshot env h))))"

section \<open>The synchronization pass\<close>

text \<open>
  The switch on \<^verbatim>\<open>se.Type\<close>: \<^verbatim>\<open>se.GetAnimeEntry().ListData\<close> panics (\<open>None\<close>) when the decoder
  returns \<^verbatim>\<open>nil\<close>; any other type leaves \<^verbatim>\<open>listData\<close> at \<^verbatim>\<open>nil\<close>.
\<close>

definition entryListData :: "('db, 'v) Env \<Rightarrow> 'v SnapshotMediaEntry \<Rightarrow> ListData option option" where
  "entryListData env se =
     (if Type se = ''anime'' then
        (case GetAnimeEntry env se of None \<Rightarrow> None | Some e \<Rightarrow> Some (AnimeListData e))
      else if Type se = ''manga'' then
        (case GetMangaEntry env se of None \<Rightarrow> None | Some e \<Rightarrow> Some (MangaListData e))
      else Some None)"

definition fuzzyDate :: "('db, 'v) Env \<Rightarrow> string \<Rightarrow> FuzzyDateInput option" where
  "fuzzyDate env s =
     (if s \<noteq> [] then
        (case ParseRFC3339 env s of
           None \<Rightarrow> None
         | Some (year, month, day) \<Rightarrow> Some \<lparr>Year = Some year, Month = Some month, Day = Some day\<rparr>)
      else None)"

text \<open>
  The body of the loop from \<^verbatim>\<open>listData.Score = listData.Score * 10\<close> to the arguments of
  the remote call. \<^verbatim>\<open>listData\<close> belongs to an entry decoded for this pass only.
\<close>

definition pushArgs :: "('db, 'v) Env \<Rightarrow> 'v SnapshotMediaEntry \<Rightarrow> ListData \<Rightarrow> push" where
  "pushArgs env se listData =
     (let listData = listData\<lparr>Score := go_int (Score listData * 10)\<rparr>;
          startDate = fuzzyDate env (StartedAt listData);
          endDate = fuzzyDate env (CompletedAt listData)
      in \<lparr>argMediaId = MediaId se, argStatus = Status listData, argScore = Score listData,
          argProgress = Progress listData, argStartDate = startDate, argEndDate = endDate\<rparr>)"

text \<open>
  The loop over \<^verbatim>\<open>updatedSnapshotEntries\<close>. It carries \<^verbatim>\<open>errI\<close>, which every remote call
  assigns, and the events; the first component of the result says whether it panicked.
\<close>

fun pushEntries ::
  "('db, 'v) Env \<Rightarrow> 'v SnapshotMediaEntry list \<Rightarrow> error option \<Rightarrow> event list \<Rightarrow>
   bool \<times> error option \<times> event list" where
  "pushEntries env [] errI tr = (False, errI, tr)"
| "pushEntries env (se # ses) errI tr =
     (case entryListData env se of
        None \<Rightarrow> (True, errI, tr)
      | Some None \<Rightarrow> pushEntries env ses errI tr
      | Some (Some listData) \<Rightarrow>
          (let p = pushArgs env se listData;
               errI = UpdateMediaListEntry env tr p
           in pushEntries env ses errI (tr @ [RemoteUpdate p])))"

text \<open>
  \<^verbatim>\<open>SyncListData\<close> takes no lock. Its first statement calls
  \<^verbatim>\<open>util.HandlePanicInModuleThen\<close> directly, not deferred, which recovers nothing. After the
  loop the source tests \<^verbatim>\<open>errI\<close> and returns \<^verbatim>\<open>err\<close>, the variable last assigned by
  \<^verbatim>\<open>GetSnapshotMediaEntries\<close>. The error of \<^verbatim>\<open>DeleteSnapshot\<close> is discarded. The callback
  \<^verbatim>\<open>RefreshAnilistCollections\<close> and the event manager are taken to be set, as the
  constructor leaves them.
\<close>

definition SyncListData :: "('db, 'v) Env \<Rightarrow> ('db, 'v) Hub \<Rightarrow> outcome \<times> ('db, 'v) Hub" where
  "SyncListData env h =
     (if isOffline h then (Success, h)
      else
        (let (snapshotItem, err) = GetLatestSnapshot env (offlineDb h) in
         if err \<noteq> None then (Failure ''no snapshot found'', h)
         else case snapshotItem of
           None \<Rightarrow> (Failure ''no snapshot found'', h)
         | Some snapshotItem \<Rightarrow>
            if Synced snapshotItem then (Failure ''data already synced'', h)
            else if \<not> Used snapshotItem then (Failure ''snapshot not used'', h)
            else
              (let (snapshotEntries, err) =
                     GetSnapshotMediaEntries env (offlineDb h) (ID snapshotItem) in
               if err \<noteq> None then (return_err err, h)
               else
                 (let updatedSnapshotEntries =
                        filter (\<lambda>se. CreatedAt se \<noteq> UpdatedAt se) snapshotEntries in
                  if length updatedSnapshotEntries = 0 then (Success, h)
                  else
                    (let (panicked, errI, tr) =
                           pushEntries env updatedSnapshotEntries None (trace h);
                         h = h\<lparr>trace := tr\<rparr>
                     in if panicked then (Panic, h)
                        else if errI \<noteq> None then (return_err err, h)
                        else
                          (let (_, db') = DeleteSnapshot env (offlineDb h) (ID snapshotItem);
                               h = h\<lparr>offlineDb := db'\<rparr>;
                               h = emit RefreshAnilistCollections h;
                               h = emit (SendEvent RefreshedAnilistCollection) h;
                               h = emit (SendEvent RefreshedAnilistMangaCollection) h
                           in (Success, h)))))))"

section \<open>The operations with what they do under the lock\<close>

text \<open>
  Holding the mutex shows in the order of things: what an operation touches between
  \<^verbatim>\<open>h.mu.Lock()\<close> and \<^verbatim>\<open>h.mu.Unlock()\<close>. The six operations are therefore written once more
  with a guard beside the hub: whether the mutex is held, and a log of every access to the
  cache \<^verbatim>\<open>h.currentSnapshot\<close>, to the store, to the loader, to the remote client, to the
  refresh callback and to the event manager, each with whether the mutex was held at that
  moment. Statement by statement they are the operations above; dropping the guard gives
  those back, which is proved below. \<^verbatim>\<open>h.isOffline\<close> is set at construction and never
  written; reading it is not logged.
\<close>

datatype access = CacheRead | CacheWrite | StoreCall | LoaderCall | RemoteCall | CallbackCall | EventSent

record guard =
  held :: bool
  accesses :: "(access \<times> bool) list"

definition freeGuard :: guard where
  "freeGuard = \<lparr>held = False, accesses = []\<rparr>"

definition touch :: "access \<Rightarrow> guard \<Rightarrow> guard" where
  "touch a g = g\<lparr>accesses := accesses g @ [(a, held g)]\<rparr>"

definition locked_acc ::
  "(('db, 'v) Hub \<Rightarrow> guard \<Rightarrow> 'a \<times> ('db, 'v) Hub \<times> guard) \<Rightarrow>
   ('db, 'v) Hub \<Rightarrow> guard \<Rightarrow> 'a \<times> ('db, 'v) Hub \<times> guard" where
  "locked_acc body h g =
     (let (r, h', g') = body (emit MuLock h) (g\<lparr>held := True\<rparr>)
      in (r, emit MuUnlock h', g'\<lparr>held := False\<rparr>))"

definition RetrieveCurrentSnapshot_acc ::
  "('db, 'v) Env \<Rightarrow> ('db, 'v) Hub \<Rightarrow> guard \<Rightarrow>
   ('v Snapshot option \<times> bool) \<times> ('db, 'v) Hub \<times> guard" where
  "RetrieveCurrentSnapshot_acc env = locked_acc (\<lambda>h g.
     let g = touch CacheRead g in
     if currentSnapshot h = None then
       (let g = touch LoaderCall g;
            (ret, err) = HubGetLatestSnapshot env (offlineDb h) in
        if err \<noteq> None then ((None, False), h, g)
        else ((ret, True), h\<lparr>currentSnapshot := ret\<rparr>, touch CacheRead (touch CacheWrite g)))
     else ((currentSnapshot h, True), h, touch CacheRead g))"

definition GetCurrentSnapshot_acc ::
  "('db, 'v) Hub \<Rightarrow> guard \<Rightarrow> ('v Snapshot option \<times> bool) \<times> ('db, 'v) Hub \<times> guard" where
  "GetCurrentSnapshot_acc = locked_acc (\<lambda>h g.
     let g = touch CacheRead g in
     if currentSnapshot h = None then ((None, False), h, g)
     else ((currentSnapshot h, True), h, touch CacheRead g))"

definition loadIfAbsent_acc ::
  "('db, 'v) Env \<Rightarrow> ('db, 'v) Hub \<Rightarrow> guard \<Rightarrow>
   (outcome \<times> guard) + (('db, 'v) Hub \<times> guard)" where
  "loadIfAbsent_acc env h g =
     (let g = touch CacheRead g in
      if currentSnapshot h = None then
        (let g = touch LoaderCall g;
             (ret, err) = HubGetLatestSnapshot env (offlineDb h) in
         if err \<noteq> None then Inl (Failure ''snapshot not found'', g)
         else Inr (h\<lparr>currentSnapshot := ret\<rparr>, touch CacheWrite g))
      else Inr (h, g))"

definition refreshCurrentSnapshot_acc ::
  "('db, 'v) Env \<Rightarrow> ('db, 'v) Hub \<Rightarrow> guard \<Rightarrow> outcome \<times> ('db, 'v) Hub \<times> guard" where
  "refreshCurrentSnapshot_acc env h g =
     (let g = touch LoaderCall g;
          (ret, err) = HubGetLatestSnapshot env (offlineDb h) in
      if err \<noteq> None then (return_err err, h, g)
      else (return_err err, h\<lparr>currentSnapshot := ret\<rparr>, touch CacheWrite g))"

definition UpdateAnimeListStatus_acc ::
  "('db, 'v) Env \<Rightarrow> int \<Rightarrow> int \<Rightarrow> MediaListStatus \<Rightarrow> ('db, 'v) Hub \<Rightarrow> guard \<Rightarrow>
   outcome \<times> ('db, 'v) Hub \<times> guard" where
  "UpdateAnimeListStatus_acc env mediaId progress status = locked_acc (\<lambda>h g.
     case loadIfAbsent_acc env h g of
       Inl (r, g) \<Rightarrow> (r, h, g)
     | Inr (h, g) \<Rightarrow>
        (let g = touch CacheRead g in
         case currentSnapshot h of
           None \<Rightarrow> (Panic, h, g)
         | Some snap \<Rightarrow>
            (let g = touch StoreCall g;
                 (snapshotEntry, err) = GetSnapshotMediaEntry env (offlineDb h) mediaId (DbId snap) in
             if err \<noteq> None then (return_err err, h, g)
             else case snapshotEntry of
               None \<Rightarrow> (Panic, h, g)
             | Some snapshotEntry \<Rightarrow>
                (case GetAnimeEntry env snapshotEntry of
                   None \<Rightarrow> (Failure ''anime entry not found'', h, g)
                 | Some animeEntry \<Rightarrow>
                    (case AnimeListData animeEntry of
                       None \<Rightarrow> (Panic, h, g)
                     | Some listData \<Rightarrow>
                        (let animeEntry = animeEntry\<lparr>AnimeListData :=
                               Some (listData\<lparr>Progress := progress, Status := status\<rparr>)\<rparr>;
                             snapshotEntry = snapshotEntry\<lparr>Value := MarshalAnime env animeEntry\<rparr>;
                             g = touch StoreCall g;
                             (err, db') = UpdateSnapshotMediaEntryT env (offlineDb h) snapshotEntry;
                             h = h\<lparr>offlineDb := db'\<rparr>
                         in if err \<noteq> None then (return_err err, h, g)
                            else refreshCurrentSnapshot_acc env h g))))))"

definition UpdateMangaListStatus_acc ::
  "('db, 'v) Env \<Rightarrow> int \<Rightarrow> int \<Rightarrow> MediaListStatus \<Rightarrow> ('db, 'v) Hub \<Rightarrow> guard \<Rightarrow>
   outcome \<times> ('db, 'v) Hub \<times> guard" where
  "UpdateMangaListStatus_acc env mediaId progress status = locked_acc (\<lambda>h g.
     case loadIfAbsent_acc env h g of
       Inl (r, g) \<Rightarrow> (r, h, g)
     | Inr (h, g) \<Rightarrow>
        (let g = touch CacheRead g in
         case currentSnapshot h of
           None \<Rightarrow> (Panic, h, g)
         | Some snap \<Rightarrow>
            (let g = touch StoreCall g;
                 (snapshotEntry, err) = GetSnapshotMediaEntry env (offlineDb h) mediaId (DbId snap) in
             if err \<noteq> None then (return_err err, h, g)
             else case snapshotEntry of
               None \<Rightarrow> (Panic, h, g)
             | Some snapshotEntry \<Rightarrow>
                (case GetMangaEntry env snapshotEntry of
                   None \<Rightarrow> (Failure ''manga entry not found'', h, g)
                 | Some mangaEntry \<Rightarrow>
                    (case MangaListData mangaEntry of
                       None \<Rightarrow> (Panic, h, g)
                     | Some listData \<Rightarrow>
                        (let mangaEntry = mangaEntry\<lparr>MangaListData :=
                               Some (listData\<lparr>Progress := progress, Status := status\<rparr>)\<rparr>;
                             snapshotEntry = snapshotEntry\<lparr>Value := MarshalManga env mangaEntry\<rparr>;
                             g = touch StoreCall g;
                             (err, db') = UpdateSnapshotMediaEntryT env (offlineDb h) snapshotEntry;
                             h = h\<lparr>offlineDb := db'\<rparr>
                         in if err \<noteq> None then (return_err err, h, g)
                            else refreshCurrentSnapshot_acc env h g))))))"

definition UpdateEntryListData_acc ::
  "('db, 'v) Env \<Rightarrow> int option \<Rightarrow> MediaListStatus option \<Rightarrow> int option \<Rightarrow> int option \<Rightarrow>
   string option \<Rightarrow> string option \<Rightarrow> string \<Rightarrow> ('db, 'v) Hub \<Rightarrow> guard \<Rightarrow>
   outcome \<times> ('db, 'v) Hub \<times> guard" where
  "UpdateEntryListData_acc env mediaId status score progress startDate endDate t =
   locked_acc (\<lambda>h g.
     case mediaId of
       None \<Rightarrow> (Panic, h, g)
     | Some mediaId \<Rightarrow>
     (case loadIfAbsent_acc env h g of
       Inl (r, g) \<Rightarrow> (r, h, g)
     | Inr (h, g) \<Rightarrow>
        (let g = touch CacheRead g in
         case currentSnapshot h of
           None \<Rightarrow> (Panic, h, g)
         | Some snap \<Rightarrow>
            (let g = touch StoreCall g;
                 (snapshotEntry, err) = GetSnapshotMediaEntry env (offlineDb h) mediaId (DbId snap) in
             if err \<noteq> None then (return_err err, h, g)
             else if t = ''anime'' then
               (case snapshotEntry of
                  None \<Rightarrow> (Panic, h, g)
                | Some snapshotEntry \<Rightarrow>
                   (case GetAnimeEntry env snapshotEntry of
                      None \<Rightarrow> (Failure ''entry not found'', h, g)
                    | Some entry \<Rightarrow>
                       (case applyFields status score progress startDate endDate (AnimeListData entry) of
                          None \<Rightarrow> (Panic, h, g)
                        | Some listData \<Rightarrow>
                           (let entry = entry\<lparr>AnimeListData := listData\<rparr>;
                                snapshotEntry = snapshotEntry\<lparr>Value := MarshalAnime env entry\<rparr>;
                                g = touch StoreCall g;
                                (err, db') = UpdateSnapshotMediaEntryT env (offlineDb h) snapshotEntry;
                                h = h\<lparr>offlineDb := db'\<rparr>
                            in if err \<noteq> None then (return_err err, h, g)
                               else refreshCurrentSnapshot_acc env h g))))
             else if t = ''manga'' then
               (case snapshotEntry of
                  None \<Rightarrow> (Panic, h, g)
                | Some snapshotEntry \<Rightarrow>
                   (case GetMangaEntry env snapshotEntry of
                      None \<Rightarrow> (Failure ''entry not found'', h, g)
                    | Some entry \<Rightarrow>
                       (case applyFields status score progress startDate endDate (MangaListData entry) of
                          None \<Rightarrow> (Panic, h, g)
                        | Some listData \<Rightarrow>
                           (let entry = entry\<lparr>MangaListData := listData\<rparr>;
                                snapshotEntry = snapshotEntry\<lparr>Value := MarshalManga env entry\<rparr>;
                                g = touch StoreCall g;
                                (err, db') = UpdateSnapshotMediaEntryT env (offlineDb h) snapshotEntry;
                                h = h\<lparr>offlineDb := db'\<rparr>
                            in if err \<noteq> None then (return_err err, h, g)
                               else refreshCurrentSnapshot_acc env h g))))
             else refreshCurrentSnapshot_acc env h g))))"

fun pushEntries_acc ::
  "('db, 'v) Env \<Rightarrow> 'v SnapshotMediaEntry list \<Rightarrow> error option \<Rightarrow> event list \<Rightarrow> guard \<Rightarrow>
   bool \<times> error option \<times> event list \<times> guard" where
  "pushEntries_acc env [] errI tr g = (False, errI, tr, g)"
| "pushEntries_acc env (se # ses) errI tr g =
     (case entryListData env se of
        None \<Rightarrow> (True, errI, tr, g)
      | Some None \<Rightarrow> pushEntries_acc env ses errI tr g
      | Some (Some listData) \<Rightarrow>
          (let p = pushArgs env se listData;
               g = touch RemoteCall g;
               errI = UpdateMediaListEntry env tr p
           in pushEntries_acc env ses errI (tr @ [RemoteUpdate p]) g))"

definition SyncListData_acc ::
  "('db, 'v) Env \<Rightarrow> ('db, 'v) Hub \<Rightarrow> guard \<Rightarrow> outcome \<times> ('db, 'v) Hub \<times> guard" where
  "SyncListData_acc env h g =
     (if isOffline h then (Success, h, g)
      else
        (let g = touch StoreCall g;
             (snapshotItem, err) = GetLatestSnapshot env (offlineDb h) in
         if err \<noteq> None then (Failure ''no snapshot found'', h, g)
         else case snapshotItem of
           None \<Rightarrow> (Failure ''no snapshot found'', h, g)
         | Some snapshotItem \<Rightarrow>
            if Synced snapshotItem then (Failure ''data already synced'', h, g)
            else if \<not> Used snapshotItem then (Failure ''snapshot not used'', h, g)
            else
              (let g = touch StoreCall g;
                   (snapshotEntries, err) =
                     GetSnapshotMediaEntries env (offlineDb h) (ID snapshotItem) in
               if err \<noteq> None then (return_err err, h, g)
               else
                 (let updatedSnapshotEntries =
                        filter (\<lambda>se. CreatedAt se \<noteq> UpdatedAt se) snapshotEntries in
                  if length updatedSnapshotEntries = 0 then (Success, h, g)
                  else
                    (let (panicked, errI, tr, g) =
                           pushEntries_acc env updatedSnapshotEntries None (trace h) g;
                         h = h\<lparr>trace := tr\<rparr>
                     in if panicked then (Panic, h, g)
                        else if errI \<noteq> None then (return_err err, h, g)
                        else
                          (let g = touch StoreCall g;
                               (_, db') = DeleteSnapshot env (offlineDb h) (ID snapshotItem);
                               h = h\<lparr>offlineDb := db'\<rparr>;
                               g = touch CallbackCall g;
                               h = emit RefreshAnilistCollections h;
                               g = touch EventSent g;
                               h = emit (SendEvent RefreshedAnilistCollection) h;
                               g = touch EventSent g;
                               h = emit (SendEvent RefreshedAnilistMangaCollection) h
                           in (Success, h, g)))))))"

text \<open>The hub an operation with a guard returns, without the guard.\<close>

definition dropGuard :: "'a \<times> 'h \<times> guard \<Rightarrow> 'a \<times> 'h" where
  "dropGuard x = (fst x, fst (snd x))"

definition guardOf :: "'a \<times> 'h \<times> guard \<Rightarrow> guard" where
  "guardOf x = snd (snd x)"

text \<open>
  A run that started with the mutex free was under the lock when it made at least one
  access, made every access with the mutex held, and left the mutex free. It was outside
  the lock when it made every access with the mutex not held and left it free.
\<close>

definition underLock :: "'a \<times> 'h \<times> guard \<Rightarrow> bool" where
  "underLock x =
     (\<not> held (guardOf x) \<and> accesses (guardOf x) \<noteq> [] \<and> list_all snd (accesses (guardOf x)))"

definition outsideLock :: "'a \<times> 'h \<times> guard \<Rightarrow> bool" where
  "outsideLock x =
     (\<not> held (guardOf x) \<and> list_all (\<lambda>a. \<not> snd a) (accesses (guardOf x)))"

text \<open>The accesses of a run to the remote client.\<close>

definition remoteAccesses :: "'a \<times> 'h \<times> guard \<Rightarrow> (access \<times> bool) list" where
  "remoteAccesses x = filter (\<lambda>a. fst a = RemoteCall) (accesses (guardOf x))"

section \<open>A store, a codec and a parser to run the operations on\<close>

text \<open>
  Modelled from the spec: the Entry Codec, whose code is not in the embedded file. A stored
  value decodes to exactly one of an anime entry and a manga entry, or to nothing;
  encoding an entry and decoding it again gives the entry back.
\<close>

datatype payload = AnimePayload AnimeEntry | MangaPayload MangaEntry | Undecodable

definition memGetAnimeEntry :: "payload SnapshotMediaEntry \<Rightarrow> AnimeEntry option" where
  "memGetAnimeEntry se = (case Value se of AnimePayload e \<Rightarrow> Some e | _ \<Rightarrow> None)"

definition memGetMangaEntry :: "payload SnapshotMediaEntry \<Rightarrow> MangaEntry option" where
  "memGetMangaEntry se = (case Value se of MangaPayload e \<Rightarrow> Some e | _ \<Rightarrow> None)"

text \<open>
  Modelled from the spec: the Snapshot Store, whose code is not in the embedded file. It is
  a table of snapshots, the latest last, a table of entries and a clock. A lookup that
  finds no row is an error; an update replaces the row with the entry's key and stamps
  \<open>UpdatedAt\<close> with a time later than \<open>CreatedAt\<close>; deleting a snapshot deletes its
  entries with it.
\<close>

record Store =
  snapshots :: "SnapshotItem list"
  mediaEntries :: "payload SnapshotMediaEntry list"
  clock :: timestamp

definition memGetLatestSnapshot :: "Store \<Rightarrow> SnapshotItem option \<times> error option" where
  "memGetLatestSnapshot st =
     (if snapshots st = [] then (None, Some ''record not found'')
      else (Some (last (snapshots st)), None))"

definition memGetSnapshotMediaEntries ::
  "Store \<Rightarrow> nat \<Rightarrow> payload SnapshotMediaEntry list \<times> error option" where
  "memGetSnapshotMediaEntries st snapshotId =
     (filter (\<lambda>e. SnapshotItemId e = snapshotId) (mediaEntries st), None)"

definition memGetSnapshotMediaEntry ::
  "Store \<Rightarrow> int \<Rightarrow> nat \<Rightarrow> payload SnapshotMediaEntry option \<times> error option" where
  "memGetSnapshotMediaEntry st mediaId snapshotId =
     (case find (\<lambda>e. MediaId e = mediaId \<and> SnapshotItemId e = snapshotId) (mediaEntries st) of
        None \<Rightarrow> (None, Some ''record not found'')
      | Some e \<Rightarrow> (Some e, None))"

definition memUpdateSnapshotMediaEntryT ::
  "Store \<Rightarrow> payload SnapshotMediaEntry \<Rightarrow> error option \<times> Store" where
  "memUpdateSnapshotMediaEntryT st e =
     (let now = max (clock st) (CreatedAt e) + 1 in
      (None, st\<lparr>mediaEntries :=
                  map (\<lambda>r. if RowId r = RowId e then e\<lparr>UpdatedAt := now\<rparr> else r) (mediaEntries st),
                clock := now\<rparr>))"

definition memDeleteSnapshot :: "Store \<Rightarrow> nat \<Rightarrow> error option \<times> Store" where
  "memDeleteSnapshot st snapshotId =
     (None, st\<lparr>snapshots := filter (\<lambda>s. ID s \<noteq> snapshotId) (snapshots st),
               mediaEntries := filter (\<lambda>e. SnapshotItemId e \<noteq> snapshotId) (mediaEntries st)\<rparr>)"

text \<open>
  Modelled from the spec: the hub's loader \<^verbatim>\<open>GetLatestSnapshot(true)\<close>, whose code is not in
  the embedded file: the store's latest snapshot with its entries, found only if the store
  has a snapshot at all.
\<close>

definition memHubGetLatestSnapshot :: "Store \<Rightarrow> payload Snapshot option \<times> error option" where
  "memHubGetLatestSnapshot st =
     (let (snapshotItem, err) = memGetLatestSnapshot st in
      case snapshotItem of
        None \<Rightarrow> (None, err)
      | Some item \<Rightarrow>
          (Some \<lparr>DbId = ID item, Entries = fst (memGetSnapshotMediaEntries st (ID item))\<rparr>, None))"

text \<open>
  Modelled from the spec: RFC 3339 timestamps, for \<^verbatim>\<open>time.Parse(time.RFC3339, s)\<close> of Go's
  standard library: \<^verbatim>\<open>YYYY-MM-DDThh:mm:ss\<close>, an optional fraction of a second, then
  \<^verbatim>\<open>Z\<close> or an offset \<^verbatim>\<open>+hh:mm\<close> or \<^verbatim>\<open>-hh:mm\<close>. The date of the parsed time in its own zone
  is the date written in the string.
\<close>

definition digitVal :: "char \<Rightarrow> nat option" where
  "digitVal c =
     (let n = (of_char c :: nat) in if 48 \<le> n \<and> n \<le> 57 then Some (n - 48) else None)"

fun number :: "nat \<Rightarrow> string \<Rightarrow> nat option" where
  "number n [] = Some n"
| "number n (c # cs) = (case digitVal c of None \<Rightarrow> None | Some d \<Rightarrow> number (10 * n + d) cs)"

definition field :: "nat \<Rightarrow> nat \<Rightarrow> string \<Rightarrow> nat option" where
  "field i n s = (let cs = take n (drop i s) in if length cs = n then number 0 cs else None)"

definition charAt :: "nat \<Rightarrow> string \<Rightarrow> string" where
  "charAt i s = take 1 (drop i s)"

definition leapYear :: "nat \<Rightarrow> bool" where
  "leapYear y = (if y mod 400 = 0 then True else if y mod 100 = 0 then False else y mod 4 = 0)"

definition daysIn :: "nat \<Rightarrow> nat \<Rightarrow> nat" where
  "daysIn y m =
     (if m = 2 then (if leapYear y then 29 else 28)
      else if m = 4 \<or> m = 6 \<or> m = 9 \<or> m = 11 then 30 else 31)"

fun dropFraction :: "string \<Rightarrow> string" where
  "dropFraction (c # d # cs) =
     (if c = CHR ''.'' \<and> digitVal d \<noteq> None then dropWhile (\<lambda>x. digitVal x \<noteq> None) cs
      else c # d # cs)"
| "dropFraction cs = cs"

definition validZone :: "string \<Rightarrow> bool" where
  "validZone z =
     (z = ''Z'' \<or>
      (length z = 6 \<and> (charAt 0 z = ''+'' \<or> charAt 0 z = ''-'') \<and> charAt 3 z = '':'' \<and>
       (case (field 1 2 z, field 4 2 z) of
          (Some zh, Some zm) \<Rightarrow> zh \<le> 23 \<and> zm \<le> 59
        | _ \<Rightarrow> False)))"

definition parseRFC3339 :: "string \<Rightarrow> (int \<times> int \<times> int) option" where
  "parseRFC3339 s =
     (case (field 0 4 s, field 5 2 s, field 8 2 s, field 11 2 s, field 14 2 s, field 17 2 s) of
        (Some y, Some mo, Some d, Some hh, Some mi, Some ss) \<Rightarrow>
          (if charAt 4 s = ''-'' \<and> charAt 7 s = ''-'' \<and> charAt 10 s = ''T'' \<and>
              charAt 13 s = '':'' \<and> charAt 16 s = '':'' \<and>
              1 \<le> mo \<and> mo \<le> 12 \<and> 1 \<le> d \<and> d \<le> daysIn y mo \<and>
              hh \<le> 23 \<and> mi \<le> 59 \<and> ss \<le> 59 \<and> validZone (dropFraction (drop 19 s))
           then Some (int y, int mo, int d) else None)
      | _ \<Rightarrow> None)"

text \<open>The collaborators put together, for a given remote client.\<close>

definition memEnv :: "(event list \<Rightarrow> push \<Rightarrow> error option) \<Rightarrow> (Store, payload) Env" where
  "memEnv client =
     \<lparr>GetLatestSnapshot = memGetLatestSnapshot,
      GetSnapshotMediaEntries = memGetSnapshotMediaEntries,
      GetSnapshotMediaEntry = memGetSnapshotMediaEntry,
      UpdateSnapshotMediaEntryT = memUpdateSnapshotMediaEntryT,
      DeleteSnapshot = memDeleteSnapshot,
      HubGetLatestSnapshot = memHubGetLatestSnapshot,
      GetAnimeEntry = memGetAnimeEntry,
      GetMangaEntry = memGetMangaEntry,
      MarshalAnime = AnimePayload,
      MarshalManga = MangaPayload,
      ParseRFC3339 = parseRFC3339,
      UpdateMediaListEntry = client\<rparr>"

subsection \<open>Sample data\<close>

text \<open>
  A store whose delete fails: \<^verbatim>\<open>DeleteSnapshot\<close> reports an error and leaves the tables as
  they were; everything else is the modelled store.
\<close>

definition stuckDelete :: "Store \<Rightarrow> nat \<Rightarrow> error option \<times> Store" where
  "stuckDelete st snapshotId = (Some ''database is locked'', st)"

definition stuckEnv :: "(event list \<Rightarrow> push \<Rightarrow> error option) \<Rightarrow> (Store, payload) Env" where
  "stuckEnv client = (memEnv client)\<lparr>DeleteSnapshot := stuckDelete\<rparr>"

definition listData7 :: ListData where
  "listData7 = \<lparr>Score = 7, Status = ''CURRENT'', Progress = 3,
                StartedAt = ''2022-05-01T00:00:00Z'', CompletedAt = []\<rparr>"

definition listData9 :: ListData where
  "listData9 = \<lparr>Score = 9, Status = ''COMPLETED'', Progress = 12,
                StartedAt = ''last spring'', CompletedAt = ''2023-12-31T23:30:00+09:00''\<rparr>"

definition anime100 :: "payload SnapshotMediaEntry" where
  "anime100 = \<lparr>RowId = 1, MediaId = 100, Type = ''anime'', SnapshotItemId = 1,
               Value = AnimePayload \<lparr>AnimeListData = Some listData7, AnimeRest = ''a''\<rparr>,
               CreatedAt = 10, UpdatedAt = 20\<rparr>"

definition manga200 :: "payload SnapshotMediaEntry" where
  "manga200 = \<lparr>RowId = 2, MediaId = 200, Type = ''manga'', SnapshotItemId = 1,
               Value = MangaPayload \<lparr>MangaListData = Some listData9, MangaRest = ''m''\<rparr>,
               CreatedAt = 10, UpdatedAt = 10\<rparr>"

definition manga300 :: "payload SnapshotMediaEntry" where
  "manga300 = \<lparr>RowId = 3, MediaId = 300, Type = ''manga'', SnapshotItemId = 1,
               Value = MangaPayload \<lparr>MangaListData = Some listData9, MangaRest = ''m''\<rparr>,
               CreatedAt = 10, UpdatedAt = 30\<rparr>"

definition anime400 :: "payload SnapshotMediaEntry" where
  "anime400 = \<lparr>RowId = 4, MediaId = 400, Type = ''anime'', SnapshotItemId = 1,
               Value = AnimePayload \<lparr>AnimeListData = None, AnimeRest = ''a''\<rparr>,
               CreatedAt = 10, UpdatedAt = 40\<rparr>"

definition usedSnapshot :: SnapshotItem where
  "usedSnapshot = \<lparr>ID = 1, Used = True, Synced = False\<rparr>"

definition unusedSnapshot :: SnapshotItem where
  "unusedSnapshot = \<lparr>ID = 1, Used = False, Synced = False\<rparr>"

definition syncedSnapshot :: SnapshotItem where
  "syncedSnapshot = \<lparr>ID = 1, Used = False, Synced = True\<rparr>"

definition hubWith ::
  "SnapshotItem \<Rightarrow> payload SnapshotMediaEntry list \<Rightarrow> (Store, payload) Hub" where
  "hubWith item es =
     \<lparr>isOffline = False, currentSnapshot = None,
      offlineDb = \<lparr>snapshots = [item], mediaEntries = es, clock = 50\<rparr>, trace = []\<rparr>"

definition hubOf :: "payload SnapshotMediaEntry list \<Rightarrow> (Store, payload) Hub" where
  "hubOf es = hubWith usedSnapshot es"

definition emptyHub :: "(Store, payload) Hub" where
  "emptyHub = \<lparr>isOffline = False, currentSnapshot = None,
               offlineDb = \<lparr>snapshots = [], mediaEntries = [], clock = 0\<rparr>, trace = []\<rparr>"

text \<open>What the remote client is to receive for \<open>anime100\<close> and for \<open>manga300\<close>.\<close>

definition push100 :: push where
  "push100 = \<lparr>argMediaId = 100, argStatus = ''CURRENT'', argScore = 70, argProgress = 3,
              argStartDate = Some \<lparr>Year = Some 2022, Month = Some 5, Day = Some 1\<rparr>,
              argEndDate = None\<rparr>"

definition push300 :: push where
  "push300 = \<lparr>argMediaId = 300, argStatus = ''COMPLETED'', argScore = 90, argProgress = 12,
              argStartDate = None,
              argEndDate = Some \<lparr>Year = Some 2023, Month = Some 12, Day = Some 31\<rparr>\<rparr>"

text \<open>
  Three remote clients: one that accepts every push, one that refuses every push, and one
  that refuses the first push of a pass only.
\<close>

definition acceptAll :: "event list \<Rightarrow> push \<Rightarrow> error option" where
  "acceptAll tr p = None"

definition refuseAll :: "event list \<Rightarrow> push \<Rightarrow> error option" where
  "refuseAll tr p = Some ''remote unavailable''"

definition refuseFirst :: "event list \<Rightarrow> push \<Rightarrow> error option" where
  "refuseFirst tr p = (if tr = [] then Some ''remote unavailable'' else None)"

section \<open>Vocabulary of the statements\<close>

text \<open>The remote calls among some events, in order.\<close>

fun remoteCalls :: "event list \<Rightarrow> push list" where
  "remoteCalls [] = []"
| "remoteCalls (RemoteUpdate p # es) = p # remoteCalls es"
| "remoteCalls (e # es) = remoteCalls es"

text \<open>The events an operation added when it took the hub from \<open>h\<close> to \<open>h'\<close>.\<close>

definition newEvents :: "('db, 'v) Hub \<Rightarrow> ('db, 'v) Hub \<Rightarrow> event list" where
  "newEvents h h' = drop (length (trace h)) (trace h')"

text \<open>The remote calls of one synchronization pass started in \<open>h\<close>.\<close>

definition passPushes :: "('db, 'v) Env \<Rightarrow> ('db, 'v) Hub \<Rightarrow> push list" where
  "passPushes env h = remoteCalls (newEvents h (snd (SyncListData env h)))"

text \<open>
  The sync candidates of the spec: the entries whose \<open>CreatedAt\<close> differs from
  \<open>UpdatedAt\<close>.
\<close>

definition modified :: "'v SnapshotMediaEntry \<Rightarrow> bool" where
  "modified se = (CreatedAt se \<noteq> UpdatedAt se)"

text \<open>
  What is expected to reach the remote client for a list of entries: for each entry that
  decodes to list data, the arguments computed from that stored list data, once.
\<close>

definition expectedPush :: "('db, 'v) Env \<Rightarrow> 'v SnapshotMediaEntry \<Rightarrow> push list" where
  "expectedPush env se =
     (case entryListData env se of Some (Some listData) \<Rightarrow> [pushArgs env se listData] | _ \<Rightarrow> [])"

definition expectedPushes :: "('db, 'v) Env \<Rightarrow> 'v SnapshotMediaEntry list \<Rightarrow> push list" where
  "expectedPushes env ses = concat (map (expectedPush env) ses)"

text \<open>The stored list data of the entries that decode to list data, in order.\<close>

definition storedListData :: "('db, 'v) Env \<Rightarrow> 'v SnapshotMediaEntry list \<Rightarrow> ListData list" where
  "storedListData env ses =
     concat (map (\<lambda>se. case entryListData env se of Some (Some listData) \<Rightarrow> [listData] | _ \<Rightarrow> [])
       ses)"

text \<open>
  The answers of the remote client to a list of pushes made one after the other, after the
  events \<open>tr\<close>.
\<close>

fun pushResults :: "('db, 'v) Env \<Rightarrow> event list \<Rightarrow> push list \<Rightarrow> error option list" where
  "pushResults env tr [] = []"
| "pushResults env tr (p # ps) =
     UpdateMediaListEntry env tr p # pushResults env (tr @ [RemoteUpdate p]) ps"

text \<open>The three events of a pass that got through.\<close>

definition refreshEvents :: "event list" where
  "refreshEvents =
     [RefreshAnilistCollections, SendEvent RefreshedAnilistCollection,
      SendEvent RefreshedAnilistMangaCollection]"

section \<open>The loop of the synchronization pass\<close>

lemma remoteCalls_append: "remoteCalls (xs @ ys) = remoteCalls xs @ remoteCalls ys"
  by (induction xs rule: remoteCalls.induct) auto

lemma remoteCalls_map: "remoteCalls (map RemoteUpdate ps) = ps"
  by (induction ps) auto

lemma remoteCalls_refreshEvents: "remoteCalls refreshEvents = []"
  by (simp add: refreshEvents_def)

lemma filter_modified:
  "filter (\<lambda>se. CreatedAt se \<noteq> UpdatedAt se) ses = filter modified ses"
  by (rule filter_cong) (simp_all add: modified_def)

text \<open>
  When no entry of the list panics, the loop pushes the expected arguments in order and
  leaves in \<^verbatim>\<open>errI\<close> the answer to the last push, whatever the earlier answers were.
\<close>

lemma pushEntries_result:
  assumes "\<forall>se\<in>set ses. entryListData env se \<noteq> None"
  shows "pushEntries env ses errI tr =
           (False, last (errI # pushResults env tr (expectedPushes env ses)),
            tr @ map RemoteUpdate (expectedPushes env ses))"
  using assms
proof (induction ses arbitrary: errI tr)
  case Nil
  then show ?case by (simp add: expectedPushes_def)
next
  case (Cons se ses)
  then obtain r where r: "entryListData env se = Some r" by auto
  show ?case
  proof (cases r)
    case None
    with r Cons show ?thesis by (simp add: expectedPushes_def expectedPush_def)
  next
    case (Some listData)
    with r Cons show ?thesis by (simp add: expectedPushes_def expectedPush_def Let_def)
  qed
qed

text \<open>
  A pass that gets past the preconditions, finds a modified entry and does not panic: it
  returns \<^verbatim>\<open>err\<close>, which is \<^verbatim>\<open>nil\<close> there, on both ways out.
\<close>

lemma SyncListData_loop:
  assumes "\<not> isOffline h"
    and "GetLatestSnapshot env (offlineDb h) = (Some item, None)"
    and "\<not> Synced item" and "Used item"
    and "GetSnapshotMediaEntries env (offlineDb h) (ID item) = (ses, None)"
    and "filter modified ses \<noteq> []"
    and "\<forall>se\<in>set (filter modified ses). entryListData env se \<noteq> None"
  shows "SyncListData env h =
     (if last (None # pushResults env (trace h) (expectedPushes env (filter modified ses))) \<noteq> None
      then (Success,
            h\<lparr>trace := trace h @ map RemoteUpdate (expectedPushes env (filter modified ses))\<rparr>)
      else (Success,
            h\<lparr>offlineDb := snd (DeleteSnapshot env (offlineDb h) (ID item)),
              trace := trace h @ map RemoteUpdate (expectedPushes env (filter modified ses)) @
                       refreshEvents\<rparr>))"
  using assms(1-6)
  by (simp add: SyncListData_def filter_modified pushEntries_result[OF assms(7)] emit_def
      refreshEvents_def split: prod.splits)

lemma go_int_small: "0 \<le> x \<Longrightarrow> x \<le> 100 \<Longrightarrow> go_int x = x"
  by (simp add: go_int_def)

lemma last_all_None: "\<forall>r\<in>set rs. r = None \<Longrightarrow> last (None # rs) = None"
  by (induction rs) auto

lemma expectedPushes_Cons:
  "expectedPushes env (se # ses) = expectedPush env se @ expectedPushes env ses"
  by (simp add: expectedPushes_def)

lemma storedListData_Cons:
  "storedListData env (se # ses) =
     (case entryListData env se of Some (Some listData) \<Rightarrow> [listData] | _ \<Rightarrow> []) @
     storedListData env ses"
  by (simp add: storedListData_def)

lemma expectedPushes_mediaIds:
  "map argMediaId (expectedPushes env ses) =
     map MediaId (filter (\<lambda>se. \<exists>ld. entryListData env se = Some (Some ld)) ses)"
  by (induction ses)
     (auto simp: expectedPushes_Cons expectedPush_def pushArgs_def Let_def expectedPushes_def
           split: option.splits)

lemma expectedPushes_scores:
  "map argScore (expectedPushes env ses) =
     map (\<lambda>ld. go_int (Score ld * 10)) (storedListData env ses)"
  by (induction ses)
     (auto simp: expectedPushes_Cons storedListData_Cons expectedPush_def pushArgs_def Let_def
           expectedPushes_def storedListData_def split: option.splits)

lemma expectedPushes_startDates:
  "map argStartDate (expectedPushes env ses) =
     map (\<lambda>ld. fuzzyDate env (StartedAt ld)) (storedListData env ses)"
  by (induction ses)
     (auto simp: expectedPushes_Cons storedListData_Cons expectedPush_def pushArgs_def Let_def
           expectedPushes_def storedListData_def split: option.splits)

lemma expectedPushes_endDates:
  "map argEndDate (expectedPushes env ses) =
     map (\<lambda>ld. fuzzyDate env (CompletedAt ld)) (storedListData env ses)"
  by (induction ses)
     (auto simp: expectedPushes_Cons storedListData_Cons expectedPush_def pushArgs_def Let_def
           expectedPushes_def storedListData_def split: option.splits)

lemma passPushes_loop:
  assumes "\<not> isOffline h"
    and "GetLatestSnapshot env (offlineDb h) = (Some item, None)"
    and "\<not> Synced item" and "Used item"
    and "GetSnapshotMediaEntries env (offlineDb h) (ID item) = (ses, None)"
    and "\<forall>se\<in>set (filter modified ses). entryListData env se \<noteq> None"
  shows "passPushes env h = expectedPushes env (filter modified ses)"
proof (cases "filter modified ses = []")
  case True
  with assms(1-5) have "SyncListData env h = (Success, h)"
    by (simp add: SyncListData_def filter_modified)
  with True show ?thesis
    by (simp add: passPushes_def newEvents_def expectedPushes_def)
next
  case False
  show ?thesis
    unfolding passPushes_def newEvents_def
      SyncListData_loop[OF assms(1-5) False assms(6)]
    by (simp add: remoteCalls_append remoteCalls_map remoteCalls_refreshEvents)
qed

text \<open>The only operation a pass can apply to the store is \<^verbatim>\<open>DeleteSnapshot\<close>.\<close>

lemma SyncListData_store:
  "offlineDb (snd (SyncListData env h)) = offlineDb h \<or>
   (\<exists>sid. offlineDb (snd (SyncListData env h)) = snd (DeleteSnapshot env (offlineDb h) sid))"
  by (auto simp: SyncListData_def emit_def Let_def split: prod.splits option.splits)
     (metis snd_conv)

text \<open>
  Whatever happens, a pass only adds remote calls and, at most, the three refresh events.
\<close>

lemma pushEntries_trace:
  "\<exists>ps. snd (snd (pushEntries env ses errI tr)) = tr @ map RemoteUpdate ps"
proof (induction ses arbitrary: errI tr)
  case Nil
  have "tr = tr @ map RemoteUpdate []" by simp
  then show ?case by (metis pushEntries.simps(1) snd_conv)
next
  case (Cons se ses)
  show ?case
  proof (cases "entryListData env se")
    case None
    then have "snd (snd (pushEntries env (se # ses) errI tr)) = tr @ map RemoteUpdate []" by simp
    then show ?thesis by blast
  next
    case (Some r)
    show ?thesis
    proof (cases r)
      case None
      with Some Cons.IH[of errI tr] show ?thesis by simp
    next
      case (Some listData)
      let ?p = "pushArgs env se listData"
      from Cons.IH[of "UpdateMediaListEntry env tr ?p" "tr @ [RemoteUpdate ?p]"]
      obtain ps where "snd (snd (pushEntries env ses (UpdateMediaListEntry env tr ?p)
                        (tr @ [RemoteUpdate ?p]))) = (tr @ [RemoteUpdate ?p]) @ map RemoteUpdate ps"
        by blast
      then have "snd (snd (pushEntries env (se # ses) errI tr)) = tr @ map RemoteUpdate (?p # ps)"
        using \<open>entryListData env se = Some r\<close> Some by (simp add: Let_def)
      then show ?thesis by blast
    qed
  qed
qed

lemma SyncListData_trace:
  "\<exists>ps evs. trace (snd (SyncListData env h)) = trace h @ map RemoteUpdate ps @ evs \<and>
     (evs = [] \<or> evs = refreshEvents)"
proof -
  have keep: "\<exists>ps evs. trace h = trace h @ map RemoteUpdate ps @ evs \<and> (evs = [] \<or> evs = refreshEvents)"
    by (rule exI[of _ "[]"], rule exI[of _ "[]"]) simp
  have run: "\<exists>ps evs. t = trace h @ map RemoteUpdate ps @ evs \<and> (evs = [] \<or> evs = refreshEvents)"
    if "t = snd (snd (pushEntries env ses None (trace h))) \<or>
        t = snd (snd (pushEntries env ses None (trace h))) @ refreshEvents" for t ses
  proof -
    obtain ps where ps: "snd (snd (pushEntries env ses None (trace h))) = trace h @ map RemoteUpdate ps"
      using pushEntries_trace by blast
    from that show ?thesis
    proof
      assume "t = snd (snd (pushEntries env ses None (trace h)))"
      with ps have "t = trace h @ map RemoteUpdate ps @ []" by simp
      then show ?thesis by blast
    next
      assume "t = snd (snd (pushEntries env ses None (trace h))) @ refreshEvents"
      with ps have "t = trace h @ map RemoteUpdate ps @ refreshEvents" by simp
      then show ?thesis by blast
    qed
  qed
  have cases: "trace (snd (SyncListData env h)) = trace h \<or>
      (\<exists>ses. trace (snd (SyncListData env h)) = snd (snd (pushEntries env ses None (trace h))) \<or>
        trace (snd (SyncListData env h)) = snd (snd (pushEntries env ses None (trace h))) @ refreshEvents)"
    by (auto simp: SyncListData_def emit_def Let_def refreshEvents_def
        split: prod.splits option.splits)
       (metis snd_conv)+
  then show ?thesis using keep run by metis
qed

section \<open>The update operations on the modelled store\<close>

text \<open>
  Replacing by key in a table with distinct keys changes one position only.
\<close>

lemma map_if_key_update:
  assumes "distinct (map f xs)" and "i < length xs"
  shows "map (\<lambda>r. if f r = f (xs ! i) then y else r) xs = xs[i := y]"
proof (rule nth_equalityI)
  show "length (map (\<lambda>r. if f r = f (xs ! i) then y else r) xs) = length (xs[i := y])" by simp
next
  fix j assume "j < length (map (\<lambda>r. if f r = f (xs ! i) then y else r) xs)"
  then have j: "j < length xs" by simp
  have "(f (xs ! j) = f (xs ! i)) = (j = i)"
    using assms j nth_eq_iff_index_eq[of "map f xs" j i] by simp
  with j show "map (\<lambda>r. if f r = f (xs ! i) then y else r) xs ! j = xs[i := y] ! j"
    by (auto simp: nth_list_update)
qed

lemma mem_latest_entries:
  assumes "memHubGetLatestSnapshot st = (Some snap, None)"
  shows "snapshots st \<noteq> []" and "DbId snap = ID (last (snapshots st))"
    and "Entries snap = filter (\<lambda>e. SnapshotItemId e = DbId snap) (mediaEntries st)"
  using assms
  by (auto simp: memHubGetLatestSnapshot_def memGetLatestSnapshot_def
      memGetSnapshotMediaEntries_def split: if_splits)

lemma filter_map_preserved:
  assumes "\<forall>x\<in>set xs. P (g x) = P x"
  shows "filter P (map g xs) = map g (filter P xs)"
  using assms by (induction xs) auto

lemma mem_latest_after_update:
  assumes "memHubGetLatestSnapshot st = (Some snap, None)"
    and "SnapshotItemId e = DbId snap"
    and "\<forall>x\<in>set (mediaEntries st). RowId x = RowId e \<longrightarrow> SnapshotItemId x = DbId snap"
  shows "memHubGetLatestSnapshot (snd (memUpdateSnapshotMediaEntryT st e)) =
     (Some \<lparr>DbId = DbId snap,
            Entries = map (\<lambda>r. if RowId r = RowId e
                                then e\<lparr>UpdatedAt := max (clock st) (CreatedAt e) + 1\<rparr> else r)
                        (Entries snap)\<rparr>, None)"
proof -
  let ?upd = "\<lambda>r. if RowId r = RowId e
                     then e\<lparr>UpdatedAt := max (clock st) (CreatedAt e) + 1\<rparr> else r"
  have "filter (\<lambda>x. SnapshotItemId x = DbId snap) (map ?upd (mediaEntries st)) =
        map ?upd (filter (\<lambda>x. SnapshotItemId x = DbId snap) (mediaEntries st))"
    by (rule filter_map_preserved) (use assms(2,3) in auto)
  then show ?thesis
    using mem_latest_entries[OF assms(1)]
    by (simp add: memHubGetLatestSnapshot_def memGetLatestSnapshot_def
        memGetSnapshotMediaEntries_def memUpdateSnapshotMediaEntryT_def Let_def)
qed

lemma UpdateAnimeListStatus_mem:
  assumes "memHubGetLatestSnapshot (offlineDb h) = (Some snap, None)"
    and "currentSnapshot h = None \<or> currentSnapshot h = Some snap"
    and "UpdateAnimeListStatus (memEnv client) mediaId progress status h = (Success, h')"
  shows "\<exists>se e ld.
      find (\<lambda>r. MediaId r = mediaId \<and> SnapshotItemId r = DbId snap) (mediaEntries (offlineDb h)) =
        Some se \<and>
      Value se = AnimePayload e \<and> AnimeListData e = Some ld \<and>
      offlineDb h' = snd (memUpdateSnapshotMediaEntryT (offlineDb h)
         (se\<lparr>Value := AnimePayload
               (e\<lparr>AnimeListData := Some (ld\<lparr>Progress := progress, Status := status\<rparr>)\<rparr>)\<rparr>)) \<and>
      currentSnapshot h' = fst (memHubGetLatestSnapshot (offlineDb h'))"
  using assms
  by (auto simp: UpdateAnimeListStatus_def locked_def emit_def loadIfAbsent_def
      refreshCurrentSnapshot_def memEnv_def memGetSnapshotMediaEntry_def memGetAnimeEntry_def
      Let_def split: option.splits if_splits prod.splits payload.splits)

lemma UpdateMangaListStatus_mem:
  assumes "memHubGetLatestSnapshot (offlineDb h) = (Some snap, None)"
    and "currentSnapshot h = None \<or> currentSnapshot h = Some snap"
    and "UpdateMangaListStatus (memEnv client) mediaId progress status h = (Success, h')"
  shows "\<exists>se e ld.
      find (\<lambda>r. MediaId r = mediaId \<and> SnapshotItemId r = DbId snap) (mediaEntries (offlineDb h)) =
        Some se \<and>
      Value se = MangaPayload e \<and> MangaListData e = Some ld \<and>
      offlineDb h' = snd (memUpdateSnapshotMediaEntryT (offlineDb h)
         (se\<lparr>Value := MangaPayload
               (e\<lparr>MangaListData := Some (ld\<lparr>Progress := progress, Status := status\<rparr>)\<rparr>)\<rparr>)) \<and>
      currentSnapshot h' = fst (memHubGetLatestSnapshot (offlineDb h'))"
  using assms
  by (auto simp: UpdateMangaListStatus_def locked_def emit_def loadIfAbsent_def
      refreshCurrentSnapshot_def memEnv_def memGetSnapshotMediaEntry_def memGetMangaEntry_def
      Let_def split: option.splits if_splits prod.splits payload.splits)

lemma mem_update_snapshot:
  assumes "distinct (map RowId (mediaEntries st))"
    and "memHubGetLatestSnapshot st = (Some snap, None)"
    and "find (\<lambda>r. MediaId r = mediaId \<and> SnapshotItemId r = DbId snap) (mediaEntries st) = Some se"
  shows "\<exists>i. i < length (Entries snap) \<and> Entries snap ! i = se \<and> MediaId se = mediaId \<and>
     memHubGetLatestSnapshot (snd (memUpdateSnapshotMediaEntryT st (se\<lparr>Value := v\<rparr>))) =
       (Some \<lparr>DbId = DbId snap,
              Entries = (Entries snap)
                [i := se\<lparr>Value := v, UpdatedAt := max (clock st) (CreatedAt se) + 1\<rparr>]\<rparr>, None)"
proof -
  from assms(3) have se: "se \<in> set (mediaEntries st)" "MediaId se = mediaId"
    "SnapshotItemId se = DbId snap"
    by (auto simp: find_Some_iff)
  have entries: "Entries snap = filter (\<lambda>e. SnapshotItemId e = DbId snap) (mediaEntries st)"
    by (rule mem_latest_entries(3)[OF assms(2)])
  with se have "se \<in> set (Entries snap)" by simp
  then obtain i where i: "i < length (Entries snap)" "Entries snap ! i = se"
    by (auto simp: in_set_conv_nth)
  have d: "distinct (map RowId (Entries snap))"
    unfolding entries by (rule distinct_map_filter[OF assms(1)])
  have same: "\<forall>x\<in>set (mediaEntries st). RowId x = RowId (se\<lparr>Value := v\<rparr>) \<longrightarrow>
      SnapshotItemId x = DbId snap"
  proof (intro ballI impI)
    fix x assume "x \<in> set (mediaEntries st)" "RowId x = RowId (se\<lparr>Value := v\<rparr>)"
    with se(1) assms(1) have "x = se"
      by (auto simp: distinct_map dest: inj_onD)
    with se(3) show "SnapshotItemId x = DbId snap" by simp
  qed
  have "memHubGetLatestSnapshot (snd (memUpdateSnapshotMediaEntryT st (se\<lparr>Value := v\<rparr>))) =
     (Some \<lparr>DbId = DbId snap,
            Entries = map (\<lambda>r. if RowId r = RowId (Entries snap ! i)
                                then se\<lparr>Value := v, UpdatedAt := max (clock st) (CreatedAt se) + 1\<rparr>
                                else r)
                        (Entries snap)\<rparr>, None)"
    using mem_latest_after_update[OF assms(2) _ same] se(3) i(2) by simp
  then show ?thesis
    using i se(2) by (auto simp: map_if_key_update[OF d i(1)])
qed

section \<open>The guarded operations\<close>

text \<open>Dropping the guard from an operation written with a guard gives the operation.\<close>

lemma held_touch: "held (touch a g) = held g"
  by (simp add: touch_def)

lemma accesses_touch: "accesses (touch a g) = accesses g @ [(a, held g)]"
  by (simp add: touch_def)

lemma loadIfAbsent_acc_erase:
  "map_sum fst fst (loadIfAbsent_acc env h g) = loadIfAbsent env h"
  by (simp add: loadIfAbsent_acc_def loadIfAbsent_def Let_def split: prod.splits)

lemma refreshCurrentSnapshot_acc_erase:
  "dropGuard (refreshCurrentSnapshot_acc env h g) = refreshCurrentSnapshot env h"
  by (simp add: refreshCurrentSnapshot_acc_def refreshCurrentSnapshot_def dropGuard_def Let_def
      split: prod.splits)

lemma GetCurrentSnapshot_acc_erase:
  "dropGuard (GetCurrentSnapshot_acc h g) = GetCurrentSnapshot h"
  by (simp add: GetCurrentSnapshot_acc_def GetCurrentSnapshot_def locked_acc_def locked_def
      dropGuard_def Let_def)

lemma RetrieveCurrentSnapshot_acc_erase:
  "dropGuard (RetrieveCurrentSnapshot_acc env h g) = RetrieveCurrentSnapshot env h"
  by (simp add: RetrieveCurrentSnapshot_acc_def RetrieveCurrentSnapshot_def locked_acc_def
      locked_def dropGuard_def Let_def split: prod.splits)

lemma UpdateAnimeListStatus_acc_erase:
  "dropGuard (UpdateAnimeListStatus_acc env mediaId progress status h g) =
     UpdateAnimeListStatus env mediaId progress status h"
  by (simp add: UpdateAnimeListStatus_acc_def UpdateAnimeListStatus_def locked_acc_def
      locked_def dropGuard_def Let_def loadIfAbsent_acc_def loadIfAbsent_def
      refreshCurrentSnapshot_acc_def refreshCurrentSnapshot_def
      split: prod.splits option.splits sum.splits)

lemma UpdateMangaListStatus_acc_erase:
  "dropGuard (UpdateMangaListStatus_acc env mediaId progress status h g) =
     UpdateMangaListStatus env mediaId progress status h"
  by (simp add: UpdateMangaListStatus_acc_def UpdateMangaListStatus_def locked_acc_def
      locked_def dropGuard_def Let_def loadIfAbsent_acc_def loadIfAbsent_def
      refreshCurrentSnapshot_acc_def refreshCurrentSnapshot_def
      split: prod.splits option.splits sum.splits)

lemma UpdateEntryListData_acc_erase:
  "dropGuard (UpdateEntryListData_acc env mediaId status score progress startDate endDate t h g) =
     UpdateEntryListData env mediaId status score progress startDate endDate t h"
  by (simp add: UpdateEntryListData_acc_def UpdateEntryListData_def locked_acc_def
      locked_def dropGuard_def Let_def loadIfAbsent_acc_def loadIfAbsent_def
      refreshCurrentSnapshot_acc_def refreshCurrentSnapshot_def
      split: prod.splits option.splits sum.splits)

text \<open>
  Started with the mutex free, the cache and update operations release it and make every
  access while it is held.
\<close>

lemma five_guarded:
  "held (guardOf (GetCurrentSnapshot_acc h freeGuard)) = False \<and>
   accesses (guardOf (GetCurrentSnapshot_acc h freeGuard)) \<noteq> [] \<and>
   list_all snd (accesses (guardOf (GetCurrentSnapshot_acc h freeGuard)))"
  "held (guardOf (RetrieveCurrentSnapshot_acc env h freeGuard)) = False \<and>
   accesses (guardOf (RetrieveCurrentSnapshot_acc env h freeGuard)) \<noteq> [] \<and>
   list_all snd (accesses (guardOf (RetrieveCurrentSnapshot_acc env h freeGuard)))"
  by (simp_all add: GetCurrentSnapshot_acc_def RetrieveCurrentSnapshot_acc_def locked_acc_def
      guardOf_def freeGuard_def touch_def Let_def split: prod.splits)

lemma UpdateAnimeListStatus_guarded:
  "held (guardOf (UpdateAnimeListStatus_acc env mediaId progress status h freeGuard)) = False \<and>
   accesses (guardOf (UpdateAnimeListStatus_acc env mediaId progress status h freeGuard)) \<noteq> [] \<and>
   list_all snd (accesses (guardOf (UpdateAnimeListStatus_acc env mediaId progress status h freeGuard)))"
  by (simp add: UpdateAnimeListStatus_acc_def locked_acc_def loadIfAbsent_acc_def
      refreshCurrentSnapshot_acc_def guardOf_def freeGuard_def touch_def Let_def
      split: prod.splits option.splits sum.splits)

lemma UpdateMangaListStatus_guarded:
  "held (guardOf (UpdateMangaListStatus_acc env mediaId progress status h freeGuard)) = False \<and>
   accesses (guardOf (UpdateMangaListStatus_acc env mediaId progress status h freeGuard)) \<noteq> [] \<and>
   list_all snd (accesses (guardOf (UpdateMangaListStatus_acc env mediaId progress status h freeGuard)))"
  by (simp add: UpdateMangaListStatus_acc_def locked_acc_def loadIfAbsent_acc_def
      refreshCurrentSnapshot_acc_def guardOf_def freeGuard_def touch_def Let_def
      split: prod.splits option.splits sum.splits)

lemma UpdateEntryListData_guarded:
  "held (guardOf (UpdateEntryListData_acc env optMediaId optStatus optScore optProgress
       optStartDate optEndDate t h freeGuard)) = False \<and>
   (optMediaId \<noteq> None \<longrightarrow>
      accesses (guardOf (UpdateEntryListData_acc env optMediaId optStatus optScore optProgress
        optStartDate optEndDate t h freeGuard)) \<noteq> []) \<and>
   list_all snd (accesses (guardOf (UpdateEntryListData_acc env optMediaId optStatus optScore
       optProgress optStartDate optEndDate t h freeGuard)))"
  by (simp add: UpdateEntryListData_acc_def locked_acc_def loadIfAbsent_acc_def
      refreshCurrentSnapshot_acc_def guardOf_def freeGuard_def touch_def Let_def
      split: prod.splits option.splits sum.splits)

lemma pushEntries_acc_run:
  assumes "pushEntries_acc env ses errI tr g = (p, e, tr', g')"
  shows "pushEntries env ses errI tr = (p, e, tr') \<and> held g' = held g \<and>
         (\<exists>n. accesses g' = accesses g @ replicate n (RemoteCall, held g) \<and>
              length (remoteCalls tr') = length (remoteCalls tr) + n)"
  using assms
proof (induction ses arbitrary: errI tr g)
  case Nil
  then show ?case by auto
next
  case (Cons se ses)
  show ?case
  proof (cases "entryListData env se")
    case None
    with Cons.prems show ?thesis by auto
  next
    case (Some r)
    show ?thesis
    proof (cases r)
      case None
      with Some Cons.prems Cons.IH[of errI tr g] show ?thesis by simp
    next
      case (Some listData)
      let ?p = "pushArgs env se listData"
      from Cons.prems \<open>entryListData env se = Some r\<close> Some
      have run: "pushEntries_acc env ses (UpdateMediaListEntry env tr ?p) (tr @ [RemoteUpdate ?p])
          (touch RemoteCall g) = (p, e, tr', g')"
        by (simp add: Let_def)
      from Cons.IH[OF run] obtain n where
        a: "pushEntries env ses (UpdateMediaListEntry env tr ?p) (tr @ [RemoteUpdate ?p]) = (p, e, tr')"
        and b: "held g' = held g"
        and c: "accesses g' = accesses g @ (RemoteCall, held g) # replicate n (RemoteCall, held g)"
        and d: "length (remoteCalls tr') = length (remoteCalls tr) + Suc n"
        by (auto simp: held_touch accesses_touch remoteCalls_append)
      from c have "accesses g' = accesses g @ replicate (Suc n) (RemoteCall, held g)" by simp
      with a b d \<open>entryListData env se = Some r\<close> Some show ?thesis
        by (auto simp: Let_def simp del: replicate_Suc)
    qed
  qed
qed

text \<open>
  A pass leaves the mutex as it found it, makes every access with the mutex as it found
  it, and logs one remote access for each remote call.
\<close>

lemma pushEntries_acc_erase:
  "pushEntries_acc env ses errI tr g = (p, e, tr', g') \<Longrightarrow> pushEntries env ses errI tr = (p, e, tr')"
  by (simp add: pushEntries_acc_run)

lemma SyncListData_acc_erase:
  "dropGuard (SyncListData_acc env h g) = SyncListData env h"
  by (auto simp: SyncListData_acc_def SyncListData_def dropGuard_def Let_def emit_def
      split: prod.splits option.splits dest!: pushEntries_acc_erase)

lemma SyncListData_acc_guard:
  "held (guardOf (SyncListData_acc env h freeGuard)) = False \<and>
   list_all (\<lambda>x. \<not> snd x) (accesses (guardOf (SyncListData_acc env h freeGuard))) \<and>
   (\<not> isOffline h \<longrightarrow> accesses (guardOf (SyncListData_acc env h freeGuard)) \<noteq> [])"
  by (auto simp: SyncListData_acc_def guardOf_def Let_def freeGuard_def touch_def list_all_iff
      split: prod.splits option.splits dest!: pushEntries_acc_run)

lemma SyncListData_acc_remote:
  "length (filter (\<lambda>x. fst x = RemoteCall) (accesses (guardOf (SyncListData_acc env h freeGuard)))) +
     length (remoteCalls (trace h)) =
   length (remoteCalls (trace (snd (SyncListData env h))))"
  unfolding SyncListData_acc_erase[of env h freeGuard, symmetric]
  by (auto simp: SyncListData_acc_def guardOf_def dropGuard_def Let_def freeGuard_def touch_def
      emit_def remoteCalls_append
      split: prod.splits option.splits dest!: pushEntries_acc_run)

lemma passPushes_length:
  "length (passPushes env h) + length (remoteCalls (trace h)) =
   length (remoteCalls (trace (snd (SyncListData env h))))"
proof -
  obtain ps evs where "trace (snd (SyncListData env h)) = trace h @ map RemoteUpdate ps @ evs"
    using SyncListData_trace by blast
  then show ?thesis
    by (simp add: passPushes_def newEvents_def remoteCalls_append)
qed

section \<open>The claims\<close>

text \<open>
  C1. A pass in which a push is refused. After the loop the source tests \<^verbatim>\<open>errI\<close> but
  returns \<^verbatim>\<open>err\<close>, which is \<^verbatim>\<open>nil\<close> there, and every push assigns \<^verbatim>\<open>errI\<close> anew. A pass
  whose only push is refused keeps the snapshot and publishes nothing, yet it returns
  success, not the error of the push. A pass whose first push is refused and whose last
  push is accepted deletes the snapshot and publishes the refresh events.
\<close>

theorem SyncListData_refused_push:
  "UpdateMediaListEntry (memEnv refuseAll) [] push100 = Some ''remote unavailable'' \<and>
   SyncListData (memEnv refuseAll) (hubOf [anime100, manga200]) =
     (Success, (hubOf [anime100, manga200])\<lparr>trace := [RemoteUpdate push100]\<rparr>) \<and>
   SyncListData (memEnv refuseFirst) (hubOf [anime100, manga300]) =
     (Success,
      \<lparr>isOffline = False, currentSnapshot = None,
       offlineDb = \<lparr>snapshots = [], mediaEntries = [], clock = 50\<rparr>,
       trace = [RemoteUpdate push100, RemoteUpdate push300, RefreshAnilistCollections,
                SendEvent RefreshedAnilistCollection, SendEvent RefreshedAnilistMangaCollection]\<rparr>)"
  by code_simp

theorem SyncListData_refused_push_witness:
  "fst (SyncListData (memEnv refuseAll) (hubOf [anime100, manga200])) = Success \<and>
   snapshots (offlineDb (snd (SyncListData (memEnv refuseFirst) (hubOf [anime100, manga300])))) = []"
  using SyncListData_refused_push by simp

text \<open>
  C2, the counterexample. A modified entry whose typed entry has no list data is not
  pushed: the loop skips it, and the pass goes on to delete the snapshot.
\<close>

theorem unpushed_modified_entry:
  "modified anime400 \<and>
   fst (GetSnapshotMediaEntries (memEnv acceptAll) (offlineDb (hubOf [anime400])) 1) = [anime400] \<and>
   SyncListData (memEnv acceptAll) (hubOf [anime400]) =
     (Success,
      \<lparr>isOffline = False, currentSnapshot = None,
       offlineDb = \<lparr>snapshots = [], mediaEntries = [], clock = 50\<rparr>,
       trace = [RefreshAnilistCollections,
                SendEvent RefreshedAnilistCollection, SendEvent RefreshedAnilistMangaCollection]\<rparr>) \<and>
   passPushes (memEnv acceptAll) (hubOf [anime400]) = []"
  by code_simp

text \<open>
  C2, as amended. In a pass that gets past the preconditions and does not panic, the
  remote client is called, in order, once for each entry that is modified and decodes to
  list data, and for no other entry; an entry with \<open>CreatedAt = UpdatedAt\<close> is never
  pushed. When no entry is modified the pass returns success and leaves the hub as it was.
\<close>

theorem SyncListData_pushes_modified:
  assumes "\<not> isOffline h"
    and "GetLatestSnapshot env (offlineDb h) = (Some item, None)"
    and "\<not> Synced item" and "Used item"
    and "GetSnapshotMediaEntries env (offlineDb h) (ID item) = (ses, None)"
    and "\<forall>se\<in>set (filter modified ses). entryListData env se \<noteq> None"
  shows "map argMediaId (passPushes env h) =
           map MediaId (filter (\<lambda>se. modified se \<and> entryListData env se \<noteq> Some None) ses) \<and>
         (filter modified ses = [] \<longrightarrow> SyncListData env h = (Success, h))"
proof
  have "filter (\<lambda>se. \<exists>ld. entryListData env se = Some (Some ld)) (filter modified ses) =
        filter (\<lambda>se. modified se \<and> entryListData env se \<noteq> Some None) ses"
    unfolding filter_filter
  proof (rule filter_cong)
    fix se assume "se \<in> set ses"
    show "(modified se \<and> (\<exists>ld. entryListData env se = Some (Some ld))) =
          (modified se \<and> entryListData env se \<noteq> Some None)"
    proof (cases "modified se")
      case True
      with \<open>se \<in> set ses\<close> assms(6) obtain r where "entryListData env se = Some r" by auto
      then show ?thesis using True by (cases r) auto
    next
      case False
      then show ?thesis by simp
    qed
  qed simp
  then show "map argMediaId (passPushes env h) =
           map MediaId (filter (\<lambda>se. modified se \<and> entryListData env se \<noteq> Some None) ses)"
    by (simp add: passPushes_loop[OF assms] expectedPushes_mediaIds)
  show "filter modified ses = [] \<longrightarrow> SyncListData env h = (Success, h)"
    using assms(1-5) by (simp add: SyncListData_def filter_modified)
qed

theorem SyncListData_pushes_modified_witness:
  "map argMediaId (passPushes (memEnv acceptAll) (hubOf [anime100, manga200, manga300, anime400])) =
     [100, 300] \<and>
   SyncListData (memEnv acceptAll) (hubOf [manga200]) = (Success, hubOf [manga200])"
proof -
  have a: "map argMediaId (passPushes (memEnv acceptAll) (hubOf [anime100, manga200, manga300, anime400])) =
     [100, 300]"
    using SyncListData_pushes_modified
      [where h = "hubOf [anime100, manga200, manga300, anime400]" and env = "memEnv acceptAll"
         and item = usedSnapshot and ses = "[anime100, manga200, manga300, anime400]"]
    by (simp add: hubOf_def hubWith_def memEnv_def memGetLatestSnapshot_def usedSnapshot_def
        memGetSnapshotMediaEntries_def anime100_def manga200_def manga300_def anime400_def
        modified_def entryListData_def memGetAnimeEntry_def memGetMangaEntry_def)
  have b: "SyncListData (memEnv acceptAll) (hubOf [manga200]) = (Success, hubOf [manga200])"
    using SyncListData_pushes_modified
      [where h = "hubOf [manga200]" and env = "memEnv acceptAll"
         and item = usedSnapshot and ses = "[manga200]"]
    by (simp add: hubOf_def hubWith_def memEnv_def memGetLatestSnapshot_def usedSnapshot_def
        memGetSnapshotMediaEntries_def manga200_def
        modified_def entryListData_def memGetAnimeEntry_def memGetMangaEntry_def)
  from a b show ?thesis by simp
qed

text \<open>
  C3. In a pass that gets past the preconditions, has a modified entry and does not panic,
  with every stored score of a candidate between 0 and 10: the scores the remote client
  receives are, in order, ten times the stored scores, one call for each candidate that
  decodes to list data. The pass writes no entry: the store afterwards is the store before,
  or the store with the snapshot deleted. When the last push is refused the store and
  the cache are unchanged, and a second pass sends ten times the stored scores again.
\<close>

theorem SyncListData_score:
  assumes "\<not> isOffline h"
    and "GetLatestSnapshot env (offlineDb h) = (Some item, None)"
    and "\<not> Synced item" and "Used item"
    and "GetSnapshotMediaEntries env (offlineDb h) (ID item) = (ses, None)"
    and "filter modified ses \<noteq> []"
    and "\<forall>se\<in>set (filter modified ses). entryListData env se \<noteq> None"
    and "\<forall>ld\<in>set (storedListData env (filter modified ses)). 0 \<le> Score ld \<and> Score ld \<le> 10"
  shows "map argScore (passPushes env h) =
           map (\<lambda>ld. 10 * Score ld) (storedListData env (filter modified ses)) \<and>
         (offlineDb (snd (SyncListData env h)) = offlineDb h \<or>
          offlineDb (snd (SyncListData env h)) = snd (DeleteSnapshot env (offlineDb h) (ID item))) \<and>
         (last (None # pushResults env (trace h) (expectedPushes env (filter modified ses))) \<noteq> None
          \<longrightarrow> offlineDb (snd (SyncListData env h)) = offlineDb h \<and>
              currentSnapshot (snd (SyncListData env h)) = currentSnapshot h \<and>
              map argScore (passPushes env (snd (SyncListData env h))) =
                map (\<lambda>ld. 10 * Score ld) (storedListData env (filter modified ses)))"
proof -
  let ?cands = "filter modified ses"
  let ?ps = "expectedPushes env ?cands"
  note loop = SyncListData_loop[OF assms(1-7)]
  have scores: "map argScore ?ps = map (\<lambda>ld. 10 * Score ld) (storedListData env ?cands)"
    unfolding expectedPushes_scores
  proof (rule map_cong)
    fix ld assume "ld \<in> set (storedListData env ?cands)"
    with assms(8) have "0 \<le> Score ld" "Score ld \<le> 10" by auto
    then show "go_int (Score ld * 10) = 10 * Score ld"
      by (simp add: go_int_small)
  qed simp
  have first: "map argScore (passPushes env h) =
      map (\<lambda>ld. 10 * Score ld) (storedListData env ?cands)"
    using scores by (simp add: passPushes_loop[OF assms(1-5) assms(7)])
  have store: "offlineDb (snd (SyncListData env h)) = offlineDb h \<or>
      offlineDb (snd (SyncListData env h)) = snd (DeleteSnapshot env (offlineDb h) (ID item))"
    by (simp add: loop)
  have retry: "offlineDb (snd (SyncListData env h)) = offlineDb h \<and>
      currentSnapshot (snd (SyncListData env h)) = currentSnapshot h \<and>
      map argScore (passPushes env (snd (SyncListData env h))) =
        map (\<lambda>ld. 10 * Score ld) (storedListData env ?cands)"
    if failed: "last (None # pushResults env (trace h) ?ps) \<noteq> None"
  proof -
    let ?h' = "h\<lparr>trace := trace h @ map RemoteUpdate ?ps\<rparr>"
    from failed have h': "snd (SyncListData env h) = ?h'"
      by (simp add: loop)
    have "passPushes env ?h' = ?ps"
      by (rule passPushes_loop[where item = item]) (use assms(1-5) assms(7) in simp_all)
    with scores h' show ?thesis by simp
  qed
  from first store retry show ?thesis by blast
qed

theorem SyncListData_score_witness:
  "map argScore (passPushes (memEnv refuseAll) (hubOf [anime100, manga200, manga300])) = [70, 90] \<and>
   offlineDb (snd (SyncListData (memEnv refuseAll) (hubOf [anime100, manga200, manga300]))) =
     offlineDb (hubOf [anime100, manga200, manga300]) \<and>
   map argScore (passPushes (memEnv refuseAll)
     (snd (SyncListData (memEnv refuseAll) (hubOf [anime100, manga200, manga300])))) = [70, 90]"
proof -
  have ld: "storedListData (memEnv refuseAll) (filter modified [anime100, manga200, manga300]) =
      [listData7, listData9]"
    by (simp add: storedListData_def modified_def anime100_def manga200_def manga300_def
        entryListData_def memEnv_def memGetAnimeEntry_def memGetMangaEntry_def)
  have ps: "expectedPushes (memEnv refuseAll) (filter modified [anime100, manga200, manga300]) =
      [pushArgs (memEnv refuseAll) anime100 listData7, pushArgs (memEnv refuseAll) manga300 listData9]"
    by (simp add: expectedPushes_def expectedPush_def modified_def anime100_def manga200_def
        manga300_def entryListData_def memEnv_def memGetAnimeEntry_def memGetMangaEntry_def)
  show ?thesis
    using SyncListData_score
      [where h = "hubOf [anime100, manga200, manga300]" and env = "memEnv refuseAll"
         and item = usedSnapshot and ses = "[anime100, manga200, manga300]"]
    unfolding ld ps
    by (simp add: hubOf_def hubWith_def memEnv_def memGetLatestSnapshot_def usedSnapshot_def
        memGetSnapshotMediaEntries_def anime100_def manga200_def manga300_def
        modified_def entryListData_def memGetAnimeEntry_def memGetMangaEntry_def
        listData7_def listData9_def refuseAll_def)
qed

text \<open>
  C4. The precondition checks of \<^verbatim>\<open>SyncListData\<close> run in this order and each one ends the
  pass: offline mode returns success; then a store error or a missing snapshot fails with
  "no snapshot found"; then a set \<open>Synced\<close> flag fails with "data already synced",
  whatever \<open>Used\<close> is; then an unset \<open>Used\<close> flag fails with "snapshot not used". In
  each case the hub comes back as it was: no remote call, no event, no change of the store
  or of the cache.
\<close>

theorem SyncListData_preconditions:
  "(isOffline h \<longrightarrow> SyncListData env h = (Success, h)) \<and>
   (\<not> isOffline h \<and> snd (GetLatestSnapshot env (offlineDb h)) \<noteq> None \<longrightarrow>
      SyncListData env h = (Failure ''no snapshot found'', h)) \<and>
   (\<not> isOffline h \<and> GetLatestSnapshot env (offlineDb h) = (None, None) \<longrightarrow>
      SyncListData env h = (Failure ''no snapshot found'', h)) \<and>
   (\<not> isOffline h \<and> GetLatestSnapshot env (offlineDb h) = (Some item, None) \<and> Synced item \<longrightarrow>
      SyncListData env h = (Failure ''data already synced'', h)) \<and>
   (\<not> isOffline h \<and> GetLatestSnapshot env (offlineDb h) = (Some item, None) \<and>
    \<not> Synced item \<and> \<not> Used item \<longrightarrow>
      SyncListData env h = (Failure ''snapshot not used'', h))"
  by (simp add: SyncListData_def split: prod.splits)

theorem SyncListData_preconditions_witness:
  "SyncListData (memEnv refuseAll) ((hubOf [anime100])\<lparr>isOffline := True\<rparr>) =
     (Success, (hubOf [anime100])\<lparr>isOffline := True\<rparr>) \<and>
   SyncListData (memEnv refuseAll) emptyHub = (Failure ''no snapshot found'', emptyHub) \<and>
   SyncListData (memEnv refuseAll) (hubWith syncedSnapshot [anime100]) =
     (Failure ''data already synced'', hubWith syncedSnapshot [anime100]) \<and>
   SyncListData (memEnv refuseAll) (hubWith unusedSnapshot [anime100]) =
     (Failure ''snapshot not used'', hubWith unusedSnapshot [anime100])"
proof -
  have a: "SyncListData (memEnv refuseAll) ((hubOf [anime100])\<lparr>isOffline := True\<rparr>) =
     (Success, (hubOf [anime100])\<lparr>isOffline := True\<rparr>)"
    using SyncListData_preconditions
      [where h = "(hubOf [anime100])\<lparr>isOffline := True\<rparr>" and env = "memEnv refuseAll"]
    by simp
  have b: "SyncListData (memEnv refuseAll) emptyHub = (Failure ''no snapshot found'', emptyHub)"
    using SyncListData_preconditions [where h = emptyHub and env = "memEnv refuseAll"]
    by (simp add: emptyHub_def memEnv_def memGetLatestSnapshot_def)
  have c: "SyncListData (memEnv refuseAll) (hubWith syncedSnapshot [anime100]) =
     (Failure ''data already synced'', hubWith syncedSnapshot [anime100])"
    using SyncListData_preconditions
      [where h = "hubWith syncedSnapshot [anime100]" and env = "memEnv refuseAll"
         and item = syncedSnapshot]
    by (simp add: hubWith_def memEnv_def memGetLatestSnapshot_def syncedSnapshot_def)
  have d: "SyncListData (memEnv refuseAll) (hubWith unusedSnapshot [anime100]) =
     (Failure ''snapshot not used'', hubWith unusedSnapshot [anime100])"
    using SyncListData_preconditions
      [where h = "hubWith unusedSnapshot [anime100]" and env = "memEnv refuseAll"
         and item = unusedSnapshot]
    by (simp add: hubWith_def memEnv_def memGetLatestSnapshot_def unusedSnapshot_def)
  from a b c d show ?thesis by simp
qed

text \<open>
  C5, the counterexample. On a store whose delete fails, a pass whose only push is
  accepted calls the refresh callback, publishes both refresh events and returns success,
  and the snapshot and its entries are still in the store: the source discards the error
  of \<^verbatim>\<open>DeleteSnapshot\<close>.
\<close>

theorem undeleted_snapshot_after_success:
  "pushResults (stuckEnv acceptAll) [] [push100] = [None] \<and>
   SyncListData (stuckEnv acceptAll) (hubOf [anime100, manga200]) =
     (Success,
      (hubOf [anime100, manga200])
        \<lparr>trace := [RemoteUpdate push100, RefreshAnilistCollections,
                   SendEvent RefreshedAnilistCollection, SendEvent RefreshedAnilistMangaCollection]\<rparr>) \<and>
   snapshots (offlineDb (snd (SyncListData (stuckEnv acceptAll) (hubOf [anime100, manga200])))) =
     [usedSnapshot] \<and>
   mediaEntries (offlineDb (snd (SyncListData (stuckEnv acceptAll) (hubOf [anime100, manga200])))) =
     [anime100, manga200]"
  by code_simp

text \<open>
  C5, as amended. When every push of a candidate is accepted, in a pass that gets past the
  preconditions, has a candidate and does not panic, the pass calls \<^verbatim>\<open>DeleteSnapshot\<close> for
  the snapshot and discards its error: the store afterwards is the one that call leaves.
  Whatever the call reports, the pass then calls the refresh callback, publishes the two
  refresh events after the pushes and returns success. On no path does a pass update a
  snapshot row: \<^verbatim>\<open>DeleteSnapshot\<close> is the only store operation it applies, so it never
  sets \<open>Synced\<close>. On the modelled store the delete leaves no snapshot and no entry of
  that snapshot's id.
\<close>

theorem SyncListData_success:
  assumes "\<not> isOffline h"
    and "GetLatestSnapshot env (offlineDb h) = (Some item, None)"
    and "\<not> Synced item" and "Used item"
    and "GetSnapshotMediaEntries env (offlineDb h) (ID item) = (ses, None)"
    and "filter modified ses \<noteq> []"
    and "\<forall>se\<in>set (filter modified ses). entryListData env se \<noteq> None"
    and "\<forall>r\<in>set (pushResults env (trace h) (expectedPushes env (filter modified ses))). r = None"
  shows "SyncListData env h =
           (Success,
            h\<lparr>offlineDb := snd (DeleteSnapshot env (offlineDb h) (ID item)),
              trace := trace h @ map RemoteUpdate (expectedPushes env (filter modified ses)) @
                       [RefreshAnilistCollections, SendEvent RefreshedAnilistCollection,
                        SendEvent RefreshedAnilistMangaCollection]\<rparr>) \<and>
         (offlineDb (snd (SyncListData env g)) = offlineDb g \<or>
          (\<exists>sid. offlineDb (snd (SyncListData env g)) =
                   snd (DeleteSnapshot env (offlineDb g) sid))) \<and>
         ID item \<notin> ID ` set (snapshots (snd (memDeleteSnapshot st (ID item)))) \<and>
         ID item \<notin> SnapshotItemId ` set (mediaEntries (snd (memDeleteSnapshot st (ID item))))"
proof -
  have run: "SyncListData env h =
           (Success,
            h\<lparr>offlineDb := snd (DeleteSnapshot env (offlineDb h) (ID item)),
              trace := trace h @ map RemoteUpdate (expectedPushes env (filter modified ses)) @
                       [RefreshAnilistCollections, SendEvent RefreshedAnilistCollection,
                        SendEvent RefreshedAnilistMangaCollection]\<rparr>)"
    using last_all_None[OF assms(8)]
    by (simp add: SyncListData_loop[OF assms(1-7)] refreshEvents_def)
  have gone: "ID item \<notin> ID ` set (snapshots (snd (memDeleteSnapshot st (ID item))))"
    "ID item \<notin> SnapshotItemId ` set (mediaEntries (snd (memDeleteSnapshot st (ID item))))"
    by (auto simp: memDeleteSnapshot_def)
  show ?thesis
    by (intro conjI run gone SyncListData_store)
qed

theorem SyncListData_success_witness:
  "SyncListData (memEnv acceptAll) (hubOf [anime100, manga200, manga300]) =
     (Success,
      \<lparr>isOffline = False, currentSnapshot = None,
       offlineDb = \<lparr>snapshots = [], mediaEntries = [], clock = 50\<rparr>,
       trace = [RemoteUpdate push100, RemoteUpdate push300, RefreshAnilistCollections,
                SendEvent RefreshedAnilistCollection, SendEvent RefreshedAnilistMangaCollection]\<rparr>)"
proof -
  have ps: "expectedPushes (memEnv acceptAll) (filter modified [anime100, manga200, manga300]) =
      [push100, push300]"
    by code_simp
  show ?thesis
    using SyncListData_success
      [where h = "hubOf [anime100, manga200, manga300]" and env = "memEnv acceptAll"
         and item = usedSnapshot and ses = "[anime100, manga200, manga300]"]
    unfolding ps
    by (simp add: hubOf_def hubWith_def memEnv_def memGetLatestSnapshot_def usedSnapshot_def
        memGetSnapshotMediaEntries_def memDeleteSnapshot_def anime100_def manga200_def
        manga300_def modified_def entryListData_def memGetAnimeEntry_def memGetMangaEntry_def
        acceptAll_def)
qed

text \<open>
  C6. In a pass that gets past the preconditions and does not panic, each candidate that
  decodes to list data is pushed with the start date computed from its \<open>StartedAt\<close> and
  the end date computed from its \<open>CompletedAt\<close>, whatever the parser says. The date is
  present iff the string is not empty and parses; it is then the year, month and day of
  the parsed time.
\<close>

theorem SyncListData_dates:
  assumes "\<not> isOffline h"
    and "GetLatestSnapshot env (offlineDb h) = (Some item, None)"
    and "\<not> Synced item" and "Used item"
    and "GetSnapshotMediaEntries env (offlineDb h) (ID item) = (ses, None)"
    and "\<forall>se\<in>set (filter modified ses). entryListData env se \<noteq> None"
  shows "map argStartDate (passPushes env h) =
           map (\<lambda>ld. fuzzyDate env (StartedAt ld)) (storedListData env (filter modified ses)) \<and>
         map argEndDate (passPushes env h) =
           map (\<lambda>ld. fuzzyDate env (CompletedAt ld)) (storedListData env (filter modified ses)) \<and>
         (fuzzyDate env s \<noteq> None) = (s \<noteq> [] \<and> ParseRFC3339 env s \<noteq> None) \<and>
         (s \<noteq> [] \<and> ParseRFC3339 env s = Some (y, m, d) \<longrightarrow>
            fuzzyDate env s = Some \<lparr>Year = Some y, Month = Some m, Day = Some d\<rparr>)"
  by (auto simp: passPushes_loop[OF assms] expectedPushes_startDates expectedPushes_endDates
      fuzzyDate_def split: option.splits)

theorem SyncListData_dates_witness:
  "map argStartDate (passPushes (memEnv acceptAll) (hubOf [anime100, manga200, manga300])) =
     [Some \<lparr>Year = Some 2022, Month = Some 5, Day = Some 1\<rparr>, None] \<and>
   map argEndDate (passPushes (memEnv acceptAll) (hubOf [anime100, manga200, manga300])) =
     [None, Some \<lparr>Year = Some 2023, Month = Some 12, Day = Some 31\<rparr>] \<and>
   fuzzyDate (memEnv acceptAll) ''2022-05-01T00:00:00Z'' =
     Some \<lparr>Year = Some 2022, Month = Some 5, Day = Some 1\<rparr> \<and>
   fuzzyDate (memEnv acceptAll) [] = None \<and>
   fuzzyDate (memEnv acceptAll) ''last spring'' = None"
proof -
  have ld: "storedListData (memEnv acceptAll) (filter modified [anime100, manga200, manga300]) =
      [listData7, listData9]"
    by code_simp
  have p1: "parseRFC3339 ''2022-05-01T00:00:00Z'' = Some (2022, 5, 1)" by code_simp
  have p2: "parseRFC3339 ''2023-12-31T23:30:00+09:00'' = Some (2023, 12, 31)" by code_simp
  have p3: "parseRFC3339 ''last spring'' = None" by code_simp
  have env: "ParseRFC3339 (memEnv acceptAll) = parseRFC3339" by (simp add: memEnv_def)
  have f1: "fuzzyDate (memEnv acceptAll) ''2022-05-01T00:00:00Z'' =
     Some \<lparr>Year = Some 2022, Month = Some 5, Day = Some 1\<rparr>"
    using SyncListData_dates
      [where h = "hubOf [anime100, manga200, manga300]" and env = "memEnv acceptAll"
         and item = usedSnapshot and ses = "[anime100, manga200, manga300]"
         and s = "''2022-05-01T00:00:00Z''" and y = 2022 and m = 5 and d = 1]
    unfolding env p1
    by (simp add: hubOf_def hubWith_def memEnv_def memGetLatestSnapshot_def usedSnapshot_def
        memGetSnapshotMediaEntries_def anime100_def manga200_def
        manga300_def modified_def entryListData_def memGetAnimeEntry_def memGetMangaEntry_def)
  have f2: "fuzzyDate (memEnv acceptAll) ''2023-12-31T23:30:00+09:00'' =
     Some \<lparr>Year = Some 2023, Month = Some 12, Day = Some 31\<rparr>"
    by (simp add: fuzzyDate_def env p2)
  have f3: "fuzzyDate (memEnv acceptAll) ''last spring'' = None"
    by (simp add: fuzzyDate_def env p3)
  have f4: "fuzzyDate (memEnv acceptAll) [] = None"
    by (simp add: fuzzyDate_def)
  have "map argStartDate (passPushes (memEnv acceptAll) (hubOf [anime100, manga200, manga300])) =
          map (\<lambda>ld. fuzzyDate (memEnv acceptAll) (StartedAt ld)) [listData7, listData9] \<and>
        map argEndDate (passPushes (memEnv acceptAll) (hubOf [anime100, manga200, manga300])) =
          map (\<lambda>ld. fuzzyDate (memEnv acceptAll) (CompletedAt ld)) [listData7, listData9]"
    using SyncListData_dates
      [where h = "hubOf [anime100, manga200, manga300]" and env = "memEnv acceptAll"
         and item = usedSnapshot and ses = "[anime100, manga200, manga300]" and s = "[]"]
    unfolding ld
    by (simp add: hubOf_def hubWith_def memEnv_def memGetLatestSnapshot_def usedSnapshot_def
        memGetSnapshotMediaEntries_def anime100_def manga200_def
        manga300_def modified_def entryListData_def memGetAnimeEntry_def memGetMangaEntry_def)
  then show ?thesis
    using f1 f2 f3 f4 by (simp add: listData7_def listData9_def)
qed

text \<open>
  C7. On the modelled store, with distinct row keys and a cache that is empty or holds the
  store's latest snapshot: after a successful \<^verbatim>\<open>UpdateAnimeListStatus\<close> for a media id,
  \<^verbatim>\<open>GetCurrentSnapshot\<close> returns the snapshot in which one entry, an entry of that media
  id, has changed. Its list data has the given progress and status, with score, start and
  completion dates as before; its \<open>UpdatedAt\<close> is stamped; every other entry is as it was.
  The cache is the store's latest snapshot. Likewise for \<^verbatim>\<open>UpdateMangaListStatus\<close>.
\<close>

theorem UpdateListStatus_frame:
  assumes "distinct (map RowId (mediaEntries (offlineDb h)))"
    and "memHubGetLatestSnapshot (offlineDb h) = (Some snap, None)"
    and "currentSnapshot h = None \<or> currentSnapshot h = Some snap"
  shows
    "(UpdateAnimeListStatus (memEnv client) mediaId progress status h = (Success, h') \<longrightarrow>
        (\<exists>i e ld. i < length (Entries snap) \<and> MediaId (Entries snap ! i) = mediaId \<and>
           Value (Entries snap ! i) = AnimePayload e \<and> AnimeListData e = Some ld \<and>
           fst (GetCurrentSnapshot h') =
             (Some \<lparr>DbId = DbId snap,
                    Entries = (Entries snap)
                      [i := (Entries snap ! i)
                         \<lparr>Value := AnimePayload
                            (e\<lparr>AnimeListData := Some (ld\<lparr>Progress := progress, Status := status\<rparr>)\<rparr>),
                          UpdatedAt := max (clock (offlineDb h)) (CreatedAt (Entries snap ! i)) + 1\<rparr>]\<rparr>,
              True) \<and>
           currentSnapshot h' = fst (memHubGetLatestSnapshot (offlineDb h')))) \<and>
     (UpdateMangaListStatus (memEnv client) mediaId progress status h = (Success, h') \<longrightarrow>
        (\<exists>i e ld. i < length (Entries snap) \<and> MediaId (Entries snap ! i) = mediaId \<and>
           Value (Entries snap ! i) = MangaPayload e \<and> MangaListData e = Some ld \<and>
           fst (GetCurrentSnapshot h') =
             (Some \<lparr>DbId = DbId snap,
                    Entries = (Entries snap)
                      [i := (Entries snap ! i)
                         \<lparr>Value := MangaPayload
                            (e\<lparr>MangaListData := Some (ld\<lparr>Progress := progress, Status := status\<rparr>)\<rparr>),
                          UpdatedAt := max (clock (offlineDb h)) (CreatedAt (Entries snap ! i)) + 1\<rparr>]\<rparr>,
              True) \<and>
           currentSnapshot h' = fst (memHubGetLatestSnapshot (offlineDb h'))))"
proof (intro conjI impI)
  assume run: "UpdateAnimeListStatus (memEnv client) mediaId progress status h = (Success, h')"
  from UpdateAnimeListStatus_mem[OF assms(2,3) run] obtain se e ld where
    f: "find (\<lambda>r. MediaId r = mediaId \<and> SnapshotItemId r = DbId snap) (mediaEntries (offlineDb h)) =
        Some se"
    and v: "Value se = AnimePayload e" "AnimeListData e = Some ld"
    and db: "offlineDb h' = snd (memUpdateSnapshotMediaEntryT (offlineDb h)
         (se\<lparr>Value := AnimePayload
               (e\<lparr>AnimeListData := Some (ld\<lparr>Progress := progress, Status := status\<rparr>)\<rparr>)\<rparr>))"
    and cache: "currentSnapshot h' = fst (memHubGetLatestSnapshot (offlineDb h'))"
    by blast
  from mem_update_snapshot[OF assms(1,2) f, of "AnimePayload
      (e\<lparr>AnimeListData := Some (ld\<lparr>Progress := progress, Status := status\<rparr>)\<rparr>)"]
  obtain i where i: "i < length (Entries snap)" "Entries snap ! i = se" "MediaId se = mediaId"
    and l: "memHubGetLatestSnapshot (offlineDb h') =
       (Some \<lparr>DbId = DbId snap,
              Entries = (Entries snap)
                [i := se\<lparr>Value := AnimePayload
                      (e\<lparr>AnimeListData := Some (ld\<lparr>Progress := progress, Status := status\<rparr>)\<rparr>),
                    UpdatedAt := max (clock (offlineDb h)) (CreatedAt se) + 1\<rparr>]\<rparr>, None)"
    unfolding db by blast
  from cache l have "fst (GetCurrentSnapshot h') =
       (Some \<lparr>DbId = DbId snap,
              Entries = (Entries snap)
                [i := se\<lparr>Value := AnimePayload
                      (e\<lparr>AnimeListData := Some (ld\<lparr>Progress := progress, Status := status\<rparr>)\<rparr>),
                    UpdatedAt := max (clock (offlineDb h)) (CreatedAt se) + 1\<rparr>]\<rparr>, True)"
    by (simp add: GetCurrentSnapshot_def locked_def emit_def)
  with i v cache show "\<exists>i e ld. i < length (Entries snap) \<and> MediaId (Entries snap ! i) = mediaId \<and>
           Value (Entries snap ! i) = AnimePayload e \<and> AnimeListData e = Some ld \<and>
           fst (GetCurrentSnapshot h') =
             (Some \<lparr>DbId = DbId snap,
                    Entries = (Entries snap)
                      [i := (Entries snap ! i)
                         \<lparr>Value := AnimePayload
                            (e\<lparr>AnimeListData := Some (ld\<lparr>Progress := progress, Status := status\<rparr>)\<rparr>),
                          UpdatedAt := max (clock (offlineDb h)) (CreatedAt (Entries snap ! i)) + 1\<rparr>]\<rparr>,
              True) \<and>
           currentSnapshot h' = fst (memHubGetLatestSnapshot (offlineDb h'))"
    by blast
next
  assume run: "UpdateMangaListStatus (memEnv client) mediaId progress status h = (Success, h')"
  from UpdateMangaListStatus_mem[OF assms(2,3) run] obtain se e ld where
    f: "find (\<lambda>r. MediaId r = mediaId \<and> SnapshotItemId r = DbId snap) (mediaEntries (offlineDb h)) =
        Some se"
    and v: "Value se = MangaPayload e" "MangaListData e = Some ld"
    and db: "offlineDb h' = snd (memUpdateSnapshotMediaEntryT (offlineDb h)
         (se\<lparr>Value := MangaPayload
               (e\<lparr>MangaListData := Some (ld\<lparr>Progress := progress, Status := status\<rparr>)\<rparr>)\<rparr>))"
    and cache: "currentSnapshot h' = fst (memHubGetLatestSnapshot (offlineDb h'))"
    by blast
  from mem_update_snapshot[OF assms(1,2) f, of "MangaPayload
      (e\<lparr>MangaListData := Some (ld\<lparr>Progress := progress, Status := status\<rparr>)\<rparr>)"]
  obtain i where i: "i < length (Entries snap)" "Entries snap ! i = se" "MediaId se = mediaId"
    and l: "memHubGetLatestSnapshot (offlineDb h') =
       (Some \<lparr>DbId = DbId snap,
              Entries = (Entries snap)
                [i := se\<lparr>Value := MangaPayload
                      (e\<lparr>MangaListData := Some (ld\<lparr>Progress := progress, Status := status\<rparr>)\<rparr>),
                    UpdatedAt := max (clock (offlineDb h)) (CreatedAt se) + 1\<rparr>]\<rparr>, None)"
    unfolding db by blast
  from cache l have "fst (GetCurrentSnapshot h') =
       (Some \<lparr>DbId = DbId snap,
              Entries = (Entries snap)
                [i := se\<lparr>Value := MangaPayload
                      (e\<lparr>MangaListData := Some (ld\<lparr>Progress := progress, Status := status\<rparr>)\<rparr>),
                    UpdatedAt := max (clock (offlineDb h)) (CreatedAt se) + 1\<rparr>]\<rparr>, True)"
    by (simp add: GetCurrentSnapshot_def locked_def emit_def)
  with i v cache show "\<exists>i e ld. i < length (Entries snap) \<and> MediaId (Entries snap ! i) = mediaId \<and>
           Value (Entries snap ! i) = MangaPayload e \<and> MangaListData e = Some ld \<and>
           fst (GetCurrentSnapshot h') =
             (Some \<lparr>DbId = DbId snap,
                    Entries = (Entries snap)
                      [i := (Entries snap ! i)
                         \<lparr>Value := MangaPayload
                            (e\<lparr>MangaListData := Some (ld\<lparr>Progress := progress, Status := status\<rparr>)\<rparr>),
                          UpdatedAt := max (clock (offlineDb h)) (CreatedAt (Entries snap ! i)) + 1\<rparr>]\<rparr>,
              True) \<and>
           currentSnapshot h' = fst (memHubGetLatestSnapshot (offlineDb h'))"
    by blast
qed

theorem UpdateListStatus_frame_witness:
  "fst (GetCurrentSnapshot
          (snd (UpdateAnimeListStatus (memEnv acceptAll) 100 5 ''PAUSED''
                  (hubOf [anime100, manga200])))) =
     (Some \<lparr>DbId = 1,
            Entries =
              [anime100\<lparr>Value := AnimePayload
                           \<lparr>AnimeListData = Some (listData7\<lparr>Progress := 5, Status := ''PAUSED''\<rparr>),
                            AnimeRest = ''a''\<rparr>,
                        UpdatedAt := 51\<rparr>,
               manga200]\<rparr>, True) \<and>
   fst (GetCurrentSnapshot
          (snd (UpdateMangaListStatus (memEnv acceptAll) 200 13 ''CURRENT''
                  (hubOf [anime100, manga200])))) =
     (Some \<lparr>DbId = 1,
            Entries =
              [anime100,
               manga200\<lparr>Value := MangaPayload
                           \<lparr>MangaListData = Some (listData9\<lparr>Progress := 13, Status := ''CURRENT''\<rparr>),
                            MangaRest = ''m''\<rparr>,
                        UpdatedAt := 51\<rparr>]\<rparr>, True)"
proof -
  let ?h = "hubOf [anime100, manga200]"
  let ?snap = "\<lparr>DbId = 1, Entries = [anime100, manga200]\<rparr>"
  let ?ha = "snd (UpdateAnimeListStatus (memEnv acceptAll) 100 5 ''PAUSED'' ?h)"
  let ?hm = "snd (UpdateMangaListStatus (memEnv acceptAll) 200 13 ''CURRENT'' ?h)"
  have d: "distinct (map RowId (mediaEntries (offlineDb ?h)))" by code_simp
  have l: "memHubGetLatestSnapshot (offlineDb ?h) = (Some ?snap, None)" by code_simp
  have c: "currentSnapshot ?h = None \<or> currentSnapshot ?h = Some ?snap"
    by (simp add: hubOf_def hubWith_def)
  have clock: "clock (offlineDb ?h) = 50" by (simp add: hubOf_def hubWith_def)
  have "fst (UpdateAnimeListStatus (memEnv acceptAll) 100 5 ''PAUSED'' ?h) = Success"
    by code_simp
  then have ra: "UpdateAnimeListStatus (memEnv acceptAll) 100 5 ''PAUSED'' ?h = (Success, ?ha)"
    by (simp add: prod_eq_iff)
  have "fst (UpdateMangaListStatus (memEnv acceptAll) 200 13 ''CURRENT'' ?h) = Success"
    by code_simp
  then have rm: "UpdateMangaListStatus (memEnv acceptAll) 200 13 ''CURRENT'' ?h = (Success, ?hm)"
    by (simp add: prod_eq_iff)
  from UpdateListStatus_frame[OF d l c, THEN conjunct1, rule_format, OF ra]
  obtain i e ld where i: "i < length (Entries ?snap)"
    and m: "MediaId (Entries ?snap ! i) = 100"
    and v: "Value (Entries ?snap ! i) = AnimePayload e" "AnimeListData e = Some ld"
    and g: "fst (GetCurrentSnapshot ?ha) =
             (Some \<lparr>DbId = DbId ?snap,
                    Entries = (Entries ?snap)
                      [i := (Entries ?snap ! i)
                         \<lparr>Value := AnimePayload
                            (e\<lparr>AnimeListData := Some (ld\<lparr>Progress := 5, Status := ''PAUSED''\<rparr>)\<rparr>),
                          UpdatedAt := max (clock (offlineDb ?h)) (CreatedAt (Entries ?snap ! i)) + 1\<rparr>]\<rparr>,
              True)"
    by blast
  from i m have "i = 0"
    by (auto simp: less_Suc_eq anime100_def manga200_def)
  with v have "e = \<lparr>AnimeListData = Some listData7, AnimeRest = ''a''\<rparr>" "ld = listData7"
    by (auto simp: anime100_def)
  with g \<open>i = 0\<close> clock have a: "fst (GetCurrentSnapshot ?ha) =
     (Some \<lparr>DbId = 1,
            Entries =
              [anime100\<lparr>Value := AnimePayload
                           \<lparr>AnimeListData = Some (listData7\<lparr>Progress := 5, Status := ''PAUSED''\<rparr>),
                            AnimeRest = ''a''\<rparr>,
                        UpdatedAt := 51\<rparr>,
               manga200]\<rparr>, True)"
    by (simp add: anime100_def)
  from UpdateListStatus_frame[OF d l c, THEN conjunct2, rule_format, OF rm]
  obtain j f kd where j: "j < length (Entries ?snap)"
    and mj: "MediaId (Entries ?snap ! j) = 200"
    and vj: "Value (Entries ?snap ! j) = MangaPayload f" "MangaListData f = Some kd"
    and gj: "fst (GetCurrentSnapshot ?hm) =
             (Some \<lparr>DbId = DbId ?snap,
                    Entries = (Entries ?snap)
                      [j := (Entries ?snap ! j)
                         \<lparr>Value := MangaPayload
                            (f\<lparr>MangaListData := Some (kd\<lparr>Progress := 13, Status := ''CURRENT''\<rparr>)\<rparr>),
                          UpdatedAt := max (clock (offlineDb ?h)) (CreatedAt (Entries ?snap ! j)) + 1\<rparr>]\<rparr>,
              True)"
    by blast
  from j mj have "j = 1"
    by (auto simp: less_Suc_eq anime100_def manga200_def)
  with vj have "f = \<lparr>MangaListData = Some listData9, MangaRest = ''m''\<rparr>" "kd = listData9"
    by (auto simp: manga200_def)
  with gj \<open>j = 1\<close> clock have b: "fst (GetCurrentSnapshot ?hm) =
     (Some \<lparr>DbId = 1,
            Entries =
              [anime100,
               manga200\<lparr>Value := MangaPayload
                           \<lparr>MangaListData = Some (listData9\<lparr>Progress := 13, Status := ''CURRENT''\<rparr>),
                            MangaRest = ''m''\<rparr>,
                        UpdatedAt := 51\<rparr>]\<rparr>, True)"
    by (simp add: manga200_def)
  from a b show ?thesis by simp
qed

text \<open>
  C8, the counterexample. A pass of \<^verbatim>\<open>SyncListData\<close> calls the remote client and publishes
  its events without taking the lock: no \<open>MuLock\<close> stands before the remote call.
\<close>

theorem SyncListData_unlocked_remote_call:
  "newEvents (hubOf [anime100]) (snd (SyncListData (memEnv acceptAll) (hubOf [anime100]))) =
     [RemoteUpdate push100, RefreshAnilistCollections, SendEvent RefreshedAnilistCollection,
      SendEvent RefreshedAnilistMangaCollection]"
  by code_simp

text \<open>
  C8, as amended. \<^verbatim>\<open>GetCurrentSnapshot\<close>, \<^verbatim>\<open>RetrieveCurrentSnapshot\<close> and the three update
  operations take the lock before their first access and release it after the last, on
  every path, a panic included: started with the mutex free, each of them makes every
  read and write of the cache, every call of the store and every load of the snapshot
  while the mutex is held, and leaves the mutex free (\<^verbatim>\<open>UpdateEntryListData\<close> with a \<^verbatim>\<open>nil\<close>
  media id panics before any access). \<^verbatim>\<open>SyncListData\<close> never takes nor releases the lock:
  every call of the store, every remote call, one for each push, the refresh callback and
  the refresh events happen with the mutex not held.
\<close>

theorem Hub_locking:
  "(dropGuard (GetCurrentSnapshot_acc h freeGuard) = GetCurrentSnapshot h \<and>
    underLock (GetCurrentSnapshot_acc h freeGuard) \<and>
    newEvents h (snd (GetCurrentSnapshot h)) = [MuLock, MuUnlock]) \<and>
   (dropGuard (RetrieveCurrentSnapshot_acc env h freeGuard) = RetrieveCurrentSnapshot env h \<and>
    underLock (RetrieveCurrentSnapshot_acc env h freeGuard) \<and>
    newEvents h (snd (RetrieveCurrentSnapshot env h)) = [MuLock, MuUnlock]) \<and>
   (dropGuard (UpdateAnimeListStatus_acc env mediaId progress status h freeGuard) =
      UpdateAnimeListStatus env mediaId progress status h \<and>
    underLock (UpdateAnimeListStatus_acc env mediaId progress status h freeGuard) \<and>
    newEvents h (snd (UpdateAnimeListStatus env mediaId progress status h)) = [MuLock, MuUnlock]) \<and>
   (dropGuard (UpdateMangaListStatus_acc env mediaId progress status h freeGuard) =
      UpdateMangaListStatus env mediaId progress status h \<and>
    underLock (UpdateMangaListStatus_acc env mediaId progress status h freeGuard) \<and>
    newEvents h (snd (UpdateMangaListStatus env mediaId progress status h)) = [MuLock, MuUnlock]) \<and>
   (dropGuard (UpdateEntryListData_acc env optMediaId optStatus optScore optProgress optStartDate
                 optEndDate t h freeGuard) =
      UpdateEntryListData env optMediaId optStatus optScore optProgress optStartDate optEndDate t h \<and>
    (optMediaId \<noteq> None \<longrightarrow>
       underLock (UpdateEntryListData_acc env optMediaId optStatus optScore optProgress
                    optStartDate optEndDate t h freeGuard)) \<and>
    list_all snd (accesses (guardOf (UpdateEntryListData_acc env optMediaId optStatus optScore
                    optProgress optStartDate optEndDate t h freeGuard))) \<and>
    newEvents h (snd (UpdateEntryListData env optMediaId optStatus optScore optProgress
                        optStartDate optEndDate t h)) = [MuLock, MuUnlock]) \<and>
   (dropGuard (SyncListData_acc env h freeGuard) = SyncListData env h \<and>
    outsideLock (SyncListData_acc env h freeGuard) \<and>
    (\<not> isOffline h \<longrightarrow> accesses (guardOf (SyncListData_acc env h freeGuard)) \<noteq> []) \<and>
    length (remoteAccesses (SyncListData_acc env h freeGuard)) = length (passPushes env h) \<and>
    MuLock \<notin> set (newEvents h (snd (SyncListData env h))) \<and>
    MuUnlock \<notin> set (newEvents h (snd (SyncListData env h))) \<and>
    take (length (trace h)) (trace (snd (SyncListData env h))) = trace h)"
proof -
  have a: "newEvents h (snd (GetCurrentSnapshot h)) = [MuLock, MuUnlock]"
    by (simp add: GetCurrentSnapshot_def locked_def emit_def newEvents_def)
  have b: "newEvents h (snd (RetrieveCurrentSnapshot env h)) = [MuLock, MuUnlock]"
    by (simp add: RetrieveCurrentSnapshot_def locked_def emit_def newEvents_def
        split: prod.splits)
  have c: "newEvents h (snd (UpdateAnimeListStatus env mediaId progress status h)) =
      [MuLock, MuUnlock]"
    by (simp add: UpdateAnimeListStatus_def locked_def emit_def newEvents_def loadIfAbsent_def
        refreshCurrentSnapshot_def Let_def split: prod.splits option.splits sum.splits)
  have d: "newEvents h (snd (UpdateMangaListStatus env mediaId progress status h)) =
      [MuLock, MuUnlock]"
    by (simp add: UpdateMangaListStatus_def locked_def emit_def newEvents_def loadIfAbsent_def
        refreshCurrentSnapshot_def Let_def split: prod.splits option.splits sum.splits)
  have e: "newEvents h (snd (UpdateEntryListData env optMediaId optStatus optScore optProgress
                       optStartDate optEndDate t h)) = [MuLock, MuUnlock]"
    by (simp add: UpdateEntryListData_def locked_def emit_def newEvents_def loadIfAbsent_def
        refreshCurrentSnapshot_def Let_def split: prod.splits option.splits sum.splits)
  obtain ps evs where tr: "trace (snd (SyncListData env h)) = trace h @ map RemoteUpdate ps @ evs"
    and evs: "evs = [] \<or> evs = refreshEvents"
    using SyncListData_trace by blast
  from evs have "MuLock \<notin> set evs" "MuUnlock \<notin> set evs"
    by (auto simp: refreshEvents_def)
  with tr have f: "MuLock \<notin> set (newEvents h (snd (SyncListData env h)))"
    and g: "MuUnlock \<notin> set (newEvents h (snd (SyncListData env h)))"
    and i: "take (length (trace h)) (trace (snd (SyncListData env h))) = trace h"
    by (auto simp: newEvents_def)
  have r: "length (remoteAccesses (SyncListData_acc env h freeGuard)) = length (passPushes env h)"
    using SyncListData_acc_remote[of env h] passPushes_length[of env h]
    by (simp add: remoteAccesses_def)
  have s: "outsideLock (SyncListData_acc env h freeGuard)"
    "\<not> isOffline h \<longrightarrow> accesses (guardOf (SyncListData_acc env h freeGuard)) \<noteq> []"
    using SyncListData_acc_guard[of env h] by (simp_all add: outsideLock_def)
  have u: "optMediaId \<noteq> None \<longrightarrow>
       underLock (UpdateEntryListData_acc env optMediaId optStatus optScore optProgress
                    optStartDate optEndDate t h freeGuard)"
    "list_all snd (accesses (guardOf (UpdateEntryListData_acc env optMediaId optStatus optScore
                    optProgress optStartDate optEndDate t h freeGuard)))"
    using UpdateEntryListData_guarded[of env optMediaId optStatus optScore optProgress
        optStartDate optEndDate t h]
    by (simp_all add: underLock_def)
  show ?thesis
    by (intro conjI a b c d e f g i r s u
        GetCurrentSnapshot_acc_erase RetrieveCurrentSnapshot_acc_erase
        UpdateAnimeListStatus_acc_erase UpdateMangaListStatus_acc_erase
        UpdateEntryListData_acc_erase SyncListData_acc_erase)
       (simp_all add: underLock_def five_guarded UpdateAnimeListStatus_guarded
        UpdateMangaListStatus_guarded)
qed

theorem Hub_locking_witness:
  "underLock (UpdateAnimeListStatus_acc (memEnv acceptAll) 100 5 ''PAUSED''
                (hubOf [anime100, manga200]) freeGuard) \<and>
   accesses (guardOf (UpdateAnimeListStatus_acc (memEnv acceptAll) 100 5 ''PAUSED''
                (hubOf [anime100, manga200]) freeGuard)) =
     [(CacheRead, True), (LoaderCall, True), (CacheWrite, True), (CacheRead, True),
      (StoreCall, True), (StoreCall, True), (LoaderCall, True), (CacheWrite, True)] \<and>
   outsideLock (SyncListData_acc (memEnv acceptAll) (hubOf [anime100, manga200]) freeGuard) \<and>
   accesses (guardOf (SyncListData_acc (memEnv acceptAll) (hubOf [anime100, manga200]) freeGuard)) =
     [(StoreCall, False), (StoreCall, False), (RemoteCall, False), (StoreCall, False),
      (CallbackCall, False), (EventSent, False), (EventSent, False)] \<and>
   MuLock \<notin> set (newEvents (hubOf [anime100, manga200])
     (snd (SyncListData (memEnv acceptAll) (hubOf [anime100, manga200]))))"
proof -
  have a: "accesses (guardOf (UpdateAnimeListStatus_acc (memEnv acceptAll) 100 5 ''PAUSED''
                (hubOf [anime100, manga200]) freeGuard)) =
     [(CacheRead, True), (LoaderCall, True), (CacheWrite, True), (CacheRead, True),
      (StoreCall, True), (StoreCall, True), (LoaderCall, True), (CacheWrite, True)]"
    by code_simp
  have b: "accesses (guardOf (SyncListData_acc (memEnv acceptAll) (hubOf [anime100, manga200])
      freeGuard)) =
     [(StoreCall, False), (StoreCall, False), (RemoteCall, False), (StoreCall, False),
      (CallbackCall, False), (EventSent, False), (EventSent, False)]"
    by code_simp
  from a b show ?thesis
    using Hub_locking
      [where h = "hubOf [anime100, manga200]" and env = "memEnv acceptAll" and mediaId = 100
         and progress = 5 and status = "''PAUSED''"]
    by simp
qed

text \<open>
  C9. \<^verbatim>\<open>UpdateEntryListData\<close> reads \<^verbatim>\<open>*mediaId\<close> before it validates anything: with a
  \<^verbatim>\<open>nil\<close> \<^verbatim>\<open>mediaId\<close> it panics, whatever the other arguments and the hub are, having only
  taken and released the lock. Every other field may be \<^verbatim>\<open>nil\<close>: a call with a media id
  and no field at all succeeds.
\<close>

theorem UpdateEntryListData_nil_mediaId:
  "UpdateEntryListData env None status score progress startDate endDate t h =
     (Panic, h\<lparr>trace := trace h @ [MuLock, MuUnlock]\<rparr>) \<and>
   fst (UpdateEntryListData (memEnv acceptAll) (Some 100) None None None None None ''anime''
          (hubOf [anime100, manga200])) = Success"
proof
  show "UpdateEntryListData env None status score progress startDate endDate t h =
     (Panic, h\<lparr>trace := trace h @ [MuLock, MuUnlock]\<rparr>)"
    by (simp add: UpdateEntryListData_def locked_def emit_def)
  show "fst (UpdateEntryListData (memEnv acceptAll) (Some 100) None None None None None ''anime''
          (hubOf [anime100, manga200])) = Success"
    by code_simp
qed

theorem UpdateEntryListData_nil_mediaId_witness:
  "UpdateEntryListData (memEnv acceptAll) None (Some ''PAUSED'') (Some 8) (Some 4) None None
      ''anime'' (hubOf [anime100, manga200]) =
     (Panic, (hubOf [anime100, manga200])\<lparr>trace := [MuLock, MuUnlock]\<rparr>)"
  using UpdateEntryListData_nil_mediaId
    [where env = "memEnv acceptAll" and h = "hubOf [anime100, manga200]"
       and status = "Some ''PAUSED''" and score = "Some 8" and progress = "Some 4"
       and startDate = None and endDate = None and t = "''anime''"]
  by (simp add: hubOf_def hubWith_def)

text \<open>
  C10, the counterexample. With a media type other than "anime" and "manga" the call still
  fails when no snapshot can be loaded, and when the store has no entry for the media id.
\<close>

theorem UpdateEntryListData_other_type_fails:
  "UpdateEntryListData (memEnv acceptAll) (Some 100) None None None None None ''novel'' emptyHub =
     (Failure ''snapshot not found'', emptyHub\<lparr>trace := [MuLock, MuUnlock]\<rparr>) \<and>
   fst (UpdateEntryListData (memEnv acceptAll) (Some 999) None None None None None ''novel''
          (hubOf [anime100, manga200])) = Failure ''record not found''"
  by code_simp

text \<open>
  C10, as amended. For a media type other than "anime" and "manga" and a media id that is
  not \<^verbatim>\<open>nil\<close>, \<^verbatim>\<open>UpdateEntryListData\<close> never writes to the store and ignores the field
  arguments. It returns success, with the cache reloaded from the store, when a snapshot
  is at hand, the lookup of the entry reports no error and the reload succeeds. It fails
  with "snapshot not found" when the cache is empty and the snapshot cannot be loaded,
  with the store's error when the lookup of the entry fails, and with the loader's error
  when the reload fails. It raises no other error: every error it returns is "snapshot
  not found" or an error the lookup or the loader reported.
\<close>

theorem UpdateEntryListData_other_type:
  assumes "t \<noteq> ''anime''" and "t \<noteq> ''manga''"
  shows "offlineDb (snd (UpdateEntryListData env (Some mediaId) status score progress startDate
                           endDate t h)) = offlineDb h \<and>
         UpdateEntryListData env (Some mediaId) status score progress startDate endDate t h =
           UpdateEntryListData env (Some mediaId) None None None None None t h \<and>
         (HubGetLatestSnapshot env (offlineDb h) = (ret, None) \<and>
          (if currentSnapshot h = None then ret else currentSnapshot h) = Some snap \<and>
          snd (GetSnapshotMediaEntry env (offlineDb h) mediaId (DbId snap)) = None \<longrightarrow>
            UpdateEntryListData env (Some mediaId) status score progress startDate endDate t h =
              (Success, h\<lparr>currentSnapshot := ret, trace := trace h @ [MuLock, MuUnlock]\<rparr>)) \<and>
         (currentSnapshot h = None \<and> snd (HubGetLatestSnapshot env (offlineDb h)) \<noteq> None \<longrightarrow>
            UpdateEntryListData env (Some mediaId) status score progress startDate endDate t h =
              (Failure ''snapshot not found'', h\<lparr>trace := trace h @ [MuLock, MuUnlock]\<rparr>)) \<and>
         ((currentSnapshot h = None \<longrightarrow> snd (HubGetLatestSnapshot env (offlineDb h)) = None) \<and>
          (if currentSnapshot h = None then fst (HubGetLatestSnapshot env (offlineDb h))
           else currentSnapshot h) = Some snap \<and>
          snd (GetSnapshotMediaEntry env (offlineDb h) mediaId (DbId snap)) = Some e \<longrightarrow>
            UpdateEntryListData env (Some mediaId) status score progress startDate endDate t h =
              (Failure e, h\<lparr>currentSnapshot := Some snap, trace := trace h @ [MuLock, MuUnlock]\<rparr>)) \<and>
         (currentSnapshot h = Some snap \<and>
          snd (GetSnapshotMediaEntry env (offlineDb h) mediaId (DbId snap)) = None \<and>
          snd (HubGetLatestSnapshot env (offlineDb h)) = Some e \<longrightarrow>
            UpdateEntryListData env (Some mediaId) status score progress startDate endDate t h =
              (Failure e, h\<lparr>trace := trace h @ [MuLock, MuUnlock]\<rparr>)) \<and>
         (fst (UpdateEntryListData env (Some mediaId) status score progress startDate endDate t h) =
            Failure e \<longrightarrow>
            e = ''snapshot not found'' \<or>
            (\<exists>sid. snd (GetSnapshotMediaEntry env (offlineDb h) mediaId sid) = Some e) \<or>
            snd (HubGetLatestSnapshot env (offlineDb h)) = Some e)"
proof -
  let ?run = "UpdateEntryListData env (Some mediaId) status score progress startDate endDate t h"
  have a: "offlineDb (snd ?run) = offlineDb h"
    using assms
    by (simp add: UpdateEntryListData_def locked_def emit_def loadIfAbsent_def
        refreshCurrentSnapshot_def Let_def split: prod.splits option.splits sum.splits)
  have b: "?run = UpdateEntryListData env (Some mediaId) None None None None None t h"
    using assms
    by (simp add: UpdateEntryListData_def Let_def
        cong: option.case_cong sum.case_cong prod.case_cong if_cong)
  have c: "?run = (Success, h\<lparr>currentSnapshot := ret, trace := trace h @ [MuLock, MuUnlock]\<rparr>)"
    if "HubGetLatestSnapshot env (offlineDb h) = (ret, None)"
      and "(if currentSnapshot h = None then ret else currentSnapshot h) = Some snap"
      and "snd (GetSnapshotMediaEntry env (offlineDb h) mediaId (DbId snap)) = None"
    using assms that
    by (cases "GetSnapshotMediaEntry env (offlineDb h) mediaId (DbId snap)")
       (auto simp: UpdateEntryListData_def locked_def emit_def loadIfAbsent_def
        refreshCurrentSnapshot_def Let_def split: if_splits)
  have d: "?run = (Failure ''snapshot not found'', h\<lparr>trace := trace h @ [MuLock, MuUnlock]\<rparr>)"
    if "currentSnapshot h = None" and "snd (HubGetLatestSnapshot env (offlineDb h)) \<noteq> None"
    using assms that
    by (cases "HubGetLatestSnapshot env (offlineDb h)")
       (auto simp: UpdateEntryListData_def locked_def emit_def loadIfAbsent_def)
  have e: "?run = (Failure e, h\<lparr>currentSnapshot := Some snap, trace := trace h @ [MuLock, MuUnlock]\<rparr>)"
    if "currentSnapshot h = None \<longrightarrow> snd (HubGetLatestSnapshot env (offlineDb h)) = None"
      and "(if currentSnapshot h = None then fst (HubGetLatestSnapshot env (offlineDb h))
           else currentSnapshot h) = Some snap"
      and "snd (GetSnapshotMediaEntry env (offlineDb h) mediaId (DbId snap)) = Some e"
    using assms that
    by (cases "GetSnapshotMediaEntry env (offlineDb h) mediaId (DbId snap)";
        cases "HubGetLatestSnapshot env (offlineDb h)")
       (auto simp: UpdateEntryListData_def locked_def emit_def loadIfAbsent_def
        Let_def split: if_splits)
  have f: "?run = (Failure e, h\<lparr>trace := trace h @ [MuLock, MuUnlock]\<rparr>)"
    if "currentSnapshot h = Some snap"
      and "snd (GetSnapshotMediaEntry env (offlineDb h) mediaId (DbId snap)) = None"
      and "snd (HubGetLatestSnapshot env (offlineDb h)) = Some e"
    using assms that
    by (cases "GetSnapshotMediaEntry env (offlineDb h) mediaId (DbId snap)";
        cases "HubGetLatestSnapshot env (offlineDb h)")
       (auto simp: UpdateEntryListData_def locked_def emit_def loadIfAbsent_def
        refreshCurrentSnapshot_def Let_def split: if_splits)
  have g: "e = ''snapshot not found'' \<or>
            (\<exists>sid. snd (GetSnapshotMediaEntry env (offlineDb h) mediaId sid) = Some e) \<or>
            snd (HubGetLatestSnapshot env (offlineDb h)) = Some e"
    if "fst ?run = Failure e"
    using assms that
    by (auto simp: UpdateEntryListData_def locked_def emit_def loadIfAbsent_def
        refreshCurrentSnapshot_def Let_def
        split: if_splits prod.splits option.splits sum.splits)
       (metis snd_conv)+
  have c': "HubGetLatestSnapshot env (offlineDb h) = (ret, None) \<and>
          (if currentSnapshot h = None then ret else currentSnapshot h) = Some snap \<and>
          snd (GetSnapshotMediaEntry env (offlineDb h) mediaId (DbId snap)) = None \<longrightarrow>
            ?run = (Success, h\<lparr>currentSnapshot := ret, trace := trace h @ [MuLock, MuUnlock]\<rparr>)"
    by (intro impI, (elim conjE)?, rule c, assumption+)
  have d': "currentSnapshot h = None \<and> snd (HubGetLatestSnapshot env (offlineDb h)) \<noteq> None \<longrightarrow>
            ?run = (Failure ''snapshot not found'', h\<lparr>trace := trace h @ [MuLock, MuUnlock]\<rparr>)"
    by (intro impI, (elim conjE)?, rule d, assumption+)
  have e': "(currentSnapshot h = None \<longrightarrow> snd (HubGetLatestSnapshot env (offlineDb h)) = None) \<and>
          (if currentSnapshot h = None then fst (HubGetLatestSnapshot env (offlineDb h))
           else currentSnapshot h) = Some snap \<and>
          snd (GetSnapshotMediaEntry env (offlineDb h) mediaId (DbId snap)) = Some e \<longrightarrow>
            ?run = (Failure e, h\<lparr>currentSnapshot := Some snap, trace := trace h @ [MuLock, MuUnlock]\<rparr>)"
    by (intro impI, (elim conjE)?, rule e, assumption+)
  have f': "currentSnapshot h = Some snap \<and>
          snd (GetSnapshotMediaEntry env (offlineDb h) mediaId (DbId snap)) = None \<and>
          snd (HubGetLatestSnapshot env (offlineDb h)) = Some e \<longrightarrow>
            ?run = (Failure e, h\<lparr>trace := trace h @ [MuLock, MuUnlock]\<rparr>)"
    by (intro impI, (elim conjE)?, rule f, assumption+)
  have g': "fst ?run = Failure e \<longrightarrow>
            e = ''snapshot not found'' \<or>
            (\<exists>sid. snd (GetSnapshotMediaEntry env (offlineDb h) mediaId sid) = Some e) \<or>
            snd (HubGetLatestSnapshot env (offlineDb h)) = Some e"
    by (intro impI, (elim conjE)?, rule g, assumption+)
  show ?thesis by (intro conjI a b c' d' e' f' g')
qed


theorem UpdateEntryListData_other_type_witness:
  "UpdateEntryListData (memEnv acceptAll) (Some 100) (Some ''PAUSED'') (Some 8) None None None
     ''novel'' (hubOf [anime100, manga200]) =
     (Success,
      (hubOf [anime100, manga200])
        \<lparr>currentSnapshot := Some \<lparr>DbId = 1, Entries = [anime100, manga200]\<rparr>,
         trace := [MuLock, MuUnlock]\<rparr>) \<and>
   UpdateEntryListData (memEnv acceptAll) (Some 999) (Some ''PAUSED'') (Some 8) None None None
     ''novel'' (hubOf [anime100, manga200]) =
     (Failure ''record not found'',
      (hubOf [anime100, manga200])
        \<lparr>currentSnapshot := Some \<lparr>DbId = 1, Entries = [anime100, manga200]\<rparr>,
         trace := [MuLock, MuUnlock]\<rparr>) \<and>
   UpdateEntryListData ((memEnv acceptAll)\<lparr>HubGetLatestSnapshot := \<lambda>st. (None, Some ''unreadable'')\<rparr>)
     (Some 100) (Some ''PAUSED'') (Some 8) None None None ''novel''
     ((hubOf [anime100, manga200])\<lparr>currentSnapshot := Some \<lparr>DbId = 1, Entries = []\<rparr>\<rparr>) =
     (Failure ''unreadable'',
      (hubOf [anime100, manga200])
        \<lparr>currentSnapshot := Some \<lparr>DbId = 1, Entries = []\<rparr>, trace := [MuLock, MuUnlock]\<rparr>)"
proof -
  let ?h = "hubOf [anime100, manga200]"
  let ?snap = "\<lparr>DbId = 1, Entries = [anime100, manga200]\<rparr>"
  let ?blind = "(memEnv acceptAll)\<lparr>HubGetLatestSnapshot := \<lambda>st. (None, Some ''unreadable'')\<rparr>"
  let ?stale = "\<lparr>DbId = 1, Entries = []\<rparr> :: payload Snapshot"
  have n: "''novel'' \<noteq> ''anime''" "''novel'' \<noteq> ''manga''" by simp_all
  have l: "HubGetLatestSnapshot (memEnv acceptAll) (offlineDb ?h) = (Some ?snap, None)"
    by code_simp
  have g: "snd (GetSnapshotMediaEntry (memEnv acceptAll) (offlineDb ?h) 100 1) = None"
    by code_simp
  have g9: "snd (GetSnapshotMediaEntry (memEnv acceptAll) (offlineDb ?h) 999 1) =
      Some ''record not found''"
    by code_simp
  have gb: "snd (GetSnapshotMediaEntry ?blind (offlineDb ?h) 100 1) = None"
    by code_simp
  have c: "currentSnapshot ?h = None" by (simp add: hubOf_def hubWith_def)
  have ok: "UpdateEntryListData (memEnv acceptAll) (Some 100) (Some ''PAUSED'') (Some 8) None None
      None ''novel'' ?h =
     (Success, ?h\<lparr>currentSnapshot := Some ?snap, trace := [MuLock, MuUnlock]\<rparr>)"
    using UpdateEntryListData_other_type
      [OF n, where env = "memEnv acceptAll" and h = ?h
         and mediaId = 100 and ret = "Some ?snap" and snap = ?snap
         and status = "Some ''PAUSED''" and score = "Some 8" and progress = None
         and startDate = None and endDate = None,
       THEN conjunct2, THEN conjunct2, THEN conjunct1] l g
    by (simp add: hubOf_def hubWith_def)
  have lookup: "UpdateEntryListData (memEnv acceptAll) (Some 999) (Some ''PAUSED'') (Some 8) None
      None None ''novel'' ?h =
     (Failure ''record not found'',
      ?h\<lparr>currentSnapshot := Some ?snap, trace := [MuLock, MuUnlock]\<rparr>)"
    using UpdateEntryListData_other_type
      [OF n, where env = "memEnv acceptAll" and h = ?h
         and mediaId = 999 and snap = ?snap and e = "''record not found''"
         and status = "Some ''PAUSED''" and score = "Some 8" and progress = None
         and startDate = None and endDate = None,
       THEN conjunct2, THEN conjunct2, THEN conjunct2, THEN conjunct2, THEN conjunct1] l g9 c
    by (simp add: hubOf_def hubWith_def)
  have reload: "UpdateEntryListData ?blind (Some 100) (Some ''PAUSED'') (Some 8) None None None
      ''novel'' (?h\<lparr>currentSnapshot := Some ?stale\<rparr>) =
     (Failure ''unreadable'', ?h\<lparr>currentSnapshot := Some ?stale, trace := [MuLock, MuUnlock]\<rparr>)"
    using UpdateEntryListData_other_type
      [OF n, where env = ?blind and h = "?h\<lparr>currentSnapshot := Some ?stale\<rparr>"
         and mediaId = 100 and snap = ?stale and e = "''unreadable''"
         and status = "Some ''PAUSED''" and score = "Some 8" and progress = None
         and startDate = None and endDate = None,
       THEN conjunct2, THEN conjunct2, THEN conjunct2, THEN conjunct2, THEN conjunct2,
       THEN conjunct1] gb
    by (simp add: hubOf_def hubWith_def)
  from ok lookup reload show ?thesis by simp
qed

end
